theory Spec2Isabelle
  imports Main
begin

unbundle bit_operations_syntax

section \<open>Hardware acceleration negotiation of \<open>cap_ffmpeg_hw.hpp\<close>\<close>

text \<open>
  A shallow embedding of \<open>src/ffmpeg_decode/cap_ffmpeg_hw.hpp\<close>. Strings are
  \<open>string\<close>, a C pointer that may be \<open>NULL\<close> is an \<open>option\<close>, the two branches of
  \<open>#ifdef _WIN32\<close> are selected by a \<open>platform\<close> argument, and the functions of the
  multimedia library that the header calls are the fields of a record \<open>libav\<close> that every
  operation takes as its first argument.
\<close>

subsection \<open>Enumerations\<close>

text \<open>
  \<open>enum VideoAccelerationType\<close> (lines 17-27). A C++ enumeration also holds values that
  are none of its enumerators (line 497 casts \<open>1 << 11\<close> to it); they are
  \<open>VIDEO_ACCELERATION_OTHER\<close>, and take the statements after each \<open>switch\<close>.
\<close>

datatype VideoAccelerationType =
    VIDEO_ACCELERATION_NONE
  | VIDEO_ACCELERATION_ANY
  | VIDEO_ACCELERATION_D3D11
  | VIDEO_ACCELERATION_VAAPI
  | VIDEO_ACCELERATION_MFX
  | VIDEO_ACCELERATION_OTHER nat

text \<open>\<open>enum AVHWDeviceType\<close> of libavutil/hwcontext.h, declared outside this repository.\<close>

datatype AVHWDeviceType =
    AV_HWDEVICE_TYPE_NONE
  | AV_HWDEVICE_TYPE_VDPAU
  | AV_HWDEVICE_TYPE_CUDA
  | AV_HWDEVICE_TYPE_VAAPI
  | AV_HWDEVICE_TYPE_DXVA2
  | AV_HWDEVICE_TYPE_QSV
  | AV_HWDEVICE_TYPE_VIDEOTOOLBOX
  | AV_HWDEVICE_TYPE_D3D11VA
  | AV_HWDEVICE_TYPE_DRM
  | AV_HWDEVICE_TYPE_OPENCL
  | AV_HWDEVICE_TYPE_MEDIACODEC
  | AV_HWDEVICE_TYPE_VULKAN

text \<open>
  \<open>enum AVPixelFormat\<close> of libavutil/pixfmt.h: the enumerators the header names, and one
  constructor for all the others.
\<close>

datatype AVPixelFormat =
    AV_PIX_FMT_NONE
  | AV_PIX_FMT_NV12
  | AV_PIX_FMT_VAAPI_VLD
  | AV_PIX_FMT_CUDA
  | AV_PIX_FMT_OTHER nat

datatype platform = Windows | Posix

text \<open>What the C++ does where the model cannot go on: \<open>CV_Assert\<close> throws, and a
  \<open>NULL\<close> is read as a string or as a structure.\<close>

datatype hw_fault = AssertionFailed | NullDereference

subsection \<open>The configuration dictionary\<close>

text \<open>
  An \<open>AVDictionary\<close> is an ordered list of entries. \<open>av_dict_get(dict, key, NULL, 0)\<close>
  returns the first entry whose key equals \<open>key\<close>; with flags 0 the comparison ignores
  the case of ASCII letters (\<open>av_toupper\<close>) and matches the whole key.
\<close>

type_synonym AVDictionary = "(string \<times> string) list"

definition av_toupper :: "char \<Rightarrow> char" where
  "av_toupper c =
     (if of_char CHR ''a'' \<le> (of_char c :: nat) \<and> (of_char c :: nat) \<le> of_char CHR ''z''
      then char_of ((of_char c :: nat) - 32) else c)"

fun av_dict_get :: "AVDictionary \<Rightarrow> string \<Rightarrow> (string \<times> string) option" where
  "av_dict_get [] key = None"
| "av_dict_get ((k, v) # rest) key =
     (if map av_toupper k = map av_toupper key then Some (k, v) else av_dict_get rest key)"

text \<open>Lines 60-66, 99-105, 137-143 and 159-165: the value under \<open>key_name\<close>, or
  \<open>NULL\<close> when the dictionary is \<open>NULL\<close> or has no such entry.\<close>

definition dict_value :: "AVDictionary option \<Rightarrow> string \<Rightarrow> string option" where
  "dict_value dict key_name =
     (case dict of
        None \<Rightarrow> None
      | Some d \<Rightarrow> (case av_dict_get d key_name of None \<Rightarrow> None | Some entry \<Rightarrow> Some (snd entry)))"

subsection \<open>Configuration resolver\<close>

fun getVideoAccelerationName :: "VideoAccelerationType \<Rightarrow> string" where
  "getVideoAccelerationName VIDEO_ACCELERATION_NONE = ''none''"
| "getVideoAccelerationName VIDEO_ACCELERATION_ANY = ''any''"
| "getVideoAccelerationName VIDEO_ACCELERATION_D3D11 = ''d3d11''"
| "getVideoAccelerationName VIDEO_ACCELERATION_VAAPI = ''vaapi''"
| "getVideoAccelerationName VIDEO_ACCELERATION_MFX = ''mfx''"
| "getVideoAccelerationName (VIDEO_ACCELERATION_OTHER n) = ''unknown''"

text \<open>The default values of lines 70-91 (\<open>FFMPEG_DECODE_ACCELERATION_TYPES\<close>).\<close>

fun decoder_default :: "platform \<Rightarrow> VideoAccelerationType \<Rightarrow> string" where
  "decoder_default Windows VIDEO_ACCELERATION_NONE = ''''"
| "decoder_default Windows VIDEO_ACCELERATION_ANY = ''d3d11va''"
| "decoder_default Windows VIDEO_ACCELERATION_D3D11 = ''d3d11va''"
| "decoder_default Windows VIDEO_ACCELERATION_VAAPI = ''''"
| "decoder_default Windows VIDEO_ACCELERATION_MFX = ''''"
| "decoder_default Windows (VIDEO_ACCELERATION_OTHER n) = ''''"
| "decoder_default Posix VIDEO_ACCELERATION_NONE = ''''"
| "decoder_default Posix VIDEO_ACCELERATION_ANY = ''vaapi.iHD''"
| "decoder_default Posix VIDEO_ACCELERATION_D3D11 = ''''"
| "decoder_default Posix VIDEO_ACCELERATION_VAAPI = ''vaapi.iHD''"
| "decoder_default Posix VIDEO_ACCELERATION_MFX = ''qsv.iHD''"
| "decoder_default Posix (VIDEO_ACCELERATION_OTHER n) = ''''"

definition getDecoderConfiguration ::
  "platform \<Rightarrow> VideoAccelerationType \<Rightarrow> AVDictionary option \<Rightarrow> string" where
  "getDecoderConfiguration plat va_type dict =
     (let va_name = getVideoAccelerationName va_type;
          key_name = ''hw_decoders_'' @ va_name
      in case dict_value dict key_name of
           Some hw_acceleration \<Rightarrow> hw_acceleration
         | None \<Rightarrow> decoder_default plat va_type)"

text \<open>The default values of lines 109-130 (\<open>FFMPEG_ENCODE_ACCELERATION_TYPES\<close>).\<close>

fun encoder_default :: "platform \<Rightarrow> VideoAccelerationType \<Rightarrow> string" where
  "encoder_default Windows VIDEO_ACCELERATION_NONE = ''''"
| "encoder_default Windows VIDEO_ACCELERATION_ANY = ''qsv''"
| "encoder_default Windows VIDEO_ACCELERATION_D3D11 = ''''"
| "encoder_default Windows VIDEO_ACCELERATION_VAAPI = ''''"
| "encoder_default Windows VIDEO_ACCELERATION_MFX = ''qsv''"
| "encoder_default Windows (VIDEO_ACCELERATION_OTHER n) = ''''"
| "encoder_default Posix VIDEO_ACCELERATION_NONE = ''''"
| "encoder_default Posix VIDEO_ACCELERATION_ANY = ''qsv.iHD,vaapi.iHD''"
| "encoder_default Posix VIDEO_ACCELERATION_D3D11 = ''''"
| "encoder_default Posix VIDEO_ACCELERATION_VAAPI = ''vaapi.iHD''"
| "encoder_default Posix VIDEO_ACCELERATION_MFX = ''qsv.iHD''"
| "encoder_default Posix (VIDEO_ACCELERATION_OTHER n) = ''unknown''"

definition getEncoderConfiguration ::
  "platform \<Rightarrow> VideoAccelerationType \<Rightarrow> AVDictionary option \<Rightarrow> string" where
  "getEncoderConfiguration plat va_type dict =
     (let va_name = getVideoAccelerationName va_type;
          key_name = ''hw_encoders_'' @ va_name
      in case dict_value dict key_name of
           Some hw_acceleration \<Rightarrow> hw_acceleration
         | None \<Rightarrow> encoder_default plat va_type)"

definition getDecoderDisabledCodecs :: "platform \<Rightarrow> AVDictionary option \<Rightarrow> string" where
  "getDecoderDisabledCodecs plat dict =
     (case dict_value dict ''hw_disable_decoders'' of
        Some disabled_codecs \<Rightarrow> disabled_codecs
      | None \<Rightarrow> (case plat of
                  Windows \<Rightarrow> ''none''
                | Posix \<Rightarrow> ''av1.vaapi,av1_qsv,vp8.vaapi,vp8_qsv''))"

definition getEncoderDisabledCodecs :: "platform \<Rightarrow> AVDictionary option \<Rightarrow> string" where
  "getEncoderDisabledCodecs plat dict =
     (case dict_value dict ''hw_disabled_encoders'' of
        Some disabled_codecs \<Rightarrow> disabled_codecs
      | None \<Rightarrow> (case plat of
                  Windows \<Rightarrow> ''mjpeg_qsv''
                | Posix \<Rightarrow> ''mjpeg_vaapi,mjpeg_qsv,vp8_vaapi''))"

subsection \<open>Input string streams\<close>

text \<open>
  A \<open>std::istringstream\<close>: the characters not read yet and the state bits the header can
  set (\<open>badbit\<close> is never set on a string buffer). \<open>good()\<close> holds when no bit is set.
\<close>

record istringstream =
  buf :: string
  eofbit :: bool
  failbit :: bool

definition fresh_stream :: "string \<Rightarrow> istringstream" where
  "fresh_stream s = \<lparr>buf = s, eofbit = False, failbit = False\<rparr>"

definition stream_good :: "istringstream \<Rightarrow> bool" where
  "stream_good s \<longleftrightarrow> \<not> eofbit s \<and> \<not> failbit s"

text \<open>
  \<open>std::getline(stream, str, delim)\<close>. On a stream that is not good it sets \<open>failbit\<close>
  and leaves \<open>str\<close> as it was. Otherwise \<open>str\<close> becomes the characters before the next
  \<open>delim\<close>, which is read and dropped; reaching the end of the buffer first sets
  \<open>eofbit\<close>, and \<open>failbit\<close> too when nothing at all was read.
\<close>

definition getline :: "istringstream \<Rightarrow> string \<Rightarrow> char \<Rightarrow> string \<times> istringstream" where
  "getline s str delim =
     (if \<not> stream_good s then (str, s\<lparr>failbit := True\<rparr>)
      else
        let name = takeWhile (\<lambda>c. c \<noteq> delim) (buf s);
            rest = dropWhile (\<lambda>c. c \<noteq> delim) (buf s)
        in case rest of
             [] \<Rightarrow> (name, \<lparr>buf = [], eofbit = True, failbit = (name = [])\<rparr>)
           | d # rest' \<Rightarrow> (name, \<lparr>buf = rest', eofbit = False, failbit = False\<rparr>))"

text \<open>\<open>stream >> tmp\<close> on a default-constructed stream (line 527): there is nothing to
  read, so both \<open>eofbit\<close> and \<open>failbit\<close> are set.\<close>

definition broken_stream :: istringstream where
  "broken_stream = \<lparr>buf = [], eofbit = True, failbit = True\<rparr>"

text \<open>
  The loop \<open>while (stream.good()) { getline(stream, name, ','); ... }\<close> ends: a
  \<open>getline\<close> on a good stream either reads a delimiter, and the buffer gets shorter,
  or sets \<open>eofbit\<close>.
\<close>

definition stream_measure :: "istringstream \<Rightarrow> nat" where
  "stream_measure s = (if stream_good s then Suc (length (buf s)) else 0)"

lemma getline_decreases:
  "stream_good s \<Longrightarrow> (name, s') = getline s str d \<Longrightarrow> stream_measure s' < stream_measure s"
  unfolding getline_def stream_measure_def stream_good_def Let_def
  by (auto split: list.splits simp: less_Suc_eq_le)
     (metis length_dropWhile_le length_Cons)

text \<open>The strings such a loop reads, in order, each into a fresh \<open>std::string\<close>.\<close>

function read_tokens :: "istringstream \<Rightarrow> string list" where
  "read_tokens s =
     (if stream_good s
      then (let (name, s') = getline s [] CHR '','' in name # read_tokens s')
      else [])"
  by pat_completeness auto
termination
  by (relation "measure stream_measure") (auto dest: getline_decreases)

declare read_tokens.simps [simp del]

text \<open>
  The comma-separated entries of a list, as the specification speaks of them: the text
  between two delimiters, so a list with \<open>n\<close> commas has \<open>n + 1\<close> entries.
\<close>

fun split_on :: "char \<Rightarrow> string \<Rightarrow> string list" where
  "split_on d [] = [[]]"
| "split_on d (c # cs) =
     (if c = d then [] # split_on d cs
      else (case split_on d cs of t # ts \<Rightarrow> (c # t) # ts | [] \<Rightarrow> [[c]]))"

subsection \<open>Data of the multimedia library\<close>

text \<open>
  An \<open>AVBufferRef*\<close> is the address of the reference-counted buffer it refers to
  (\<open>NULL\<close> is \<open>None\<close>); two references are equal when they refer to the same buffer.
\<close>

type_synonym ref = nat

text \<open>The one function the header stores in \<open>AVHWDeviceContext::free\<close> (lines 225-231).\<close>

datatype free_callback = FreeChildContext

text \<open>
  The fields of \<open>AVHWDeviceContext\<close> the header reads or writes. \<open>dev_hwctx\<close> tells
  whether the \<open>hwctx\<close> pointer is set.
\<close>

record AVHWDeviceContext =
  dev_type :: AVHWDeviceType
  dev_hwctx :: bool
  dev_free :: "free_callback option"
  dev_user_opaque :: "ref option"

record AVHWFramesContext =
  frames_format :: AVPixelFormat
  frames_sw_format :: AVPixelFormat
  frames_width :: int
  frames_height :: int
  frames_initial_pool_size :: int
  frames_user_opaque :: "ref option"

record AVCodecHWConfig =
  cfg_pix_fmt :: AVPixelFormat
  cfg_methods :: int
  cfg_device_type :: AVHWDeviceType

text \<open>
  An \<open>AVCodec\<close>. \<open>codec_pix_fmts\<close> is the array \<open>pix_fmts\<close> (\<open>NULL\<close>, or ended by
  \<open>AV_PIX_FMT_NONE\<close> or by the end of the list); \<open>codec_hw_configs\<close> are the entries
  \<open>avcodec_get_hw_config(c, 0), (c, 1), ...\<close> before the first \<open>NULL\<close>;
  \<open>codec_is_encoder\<close> is \<open>av_codec_is_encoder(c)\<close>.
\<close>

record AVCodec =
  codec_name :: string
  codec_id :: nat
  codec_capabilities :: int
  codec_pix_fmts :: "AVPixelFormat list option"
  codec_hw_configs :: "AVCodecHWConfig list"
  codec_is_encoder :: bool

record AVCodecContext =
  cc_codec :: AVCodec
  cc_hw_device_ctx :: "ref option"
  cc_hw_frames_ctx :: "ref option"
  cc_width :: int
  cc_height :: int
  cc_sw_pix_fmt :: AVPixelFormat

definition AV_CODEC_CAP_EXPERIMENTAL :: int where
  "AV_CODEC_CAP_EXPERIMENTAL = 512"

definition AV_CODEC_HW_CONFIG_METHOD_HW_FRAMES_CTX :: int where
  "AV_CODEC_HW_CONFIG_METHOD_HW_FRAMES_CTX = 2"

definition AV_HWFRAME_MAP_READ :: int where
  "AV_HWFRAME_MAP_READ = 1"

definition AV_HWFRAME_MAP_WRITE :: int where
  "AV_HWFRAME_MAP_WRITE = 2"

definition AV_VERSION_INT :: "nat \<Rightarrow> nat \<Rightarrow> nat \<Rightarrow> nat" where
  "AV_VERSION_INT a b c = a * 65536 + b * 256 + c"

definition HW_DEFAULT_POOL_SIZE :: int where
  "HW_DEFAULT_POOL_SIZE = 32"

definition HW_DEFAULT_SW_FORMAT :: AVPixelFormat where
  "HW_DEFAULT_SW_FORMAT = AV_PIX_FMT_NV12"

text \<open>
  The multimedia library is outside the repository: what it answers is a parameter.
  Each field is the answer of the function of that name, as a function of the arguments
  the header passes: the result code and the context the call leaves in its output
  argument. The buffers that hold these contexts, and their reference counts, are kept
  by the store further down. \<open>av_buffer_ref_ok\<close> tells whether \<open>av_buffer_ref\<close> finds
  the memory for a new reference to the buffer at an address; it returns \<open>NULL\<close> when
  it does not.
\<close>

record libav =
  LIBAVUTIL_BUILD :: nat
  av_hwdevice_get_type_name :: "AVHWDeviceType \<Rightarrow> string option"
  av_hwdevice_find_type_by_name :: "string \<Rightarrow> AVHWDeviceType"
  av_codec_iterate :: "AVCodec list"
  av_hwdevice_ctx_create :: "AVHWDeviceType \<Rightarrow> string option \<Rightarrow> int \<times> AVHWDeviceContext option"
  av_hwdevice_ctx_create_derived ::
    "AVHWDeviceType \<Rightarrow> AVHWDeviceContext \<Rightarrow> int \<times> AVHWDeviceContext option"
  avcodec_get_hw_frames_parameters ::
    "AVCodecContext \<Rightarrow> AVHWDeviceContext \<Rightarrow> AVPixelFormat \<Rightarrow> int \<times> AVHWFramesContext option"
  av_hwframe_ctx_alloc :: "AVHWDeviceContext \<Rightarrow> AVHWFramesContext option"
  av_hwdevice_get_hwframe_constraints :: "AVHWDeviceContext \<Rightarrow> AVPixelFormat list option"
  av_hwframe_ctx_init :: "AVHWFramesContext \<Rightarrow> int"
  av_hwframe_ctx_create_derived ::
    "AVPixelFormat \<Rightarrow> AVHWDeviceContext \<Rightarrow> AVHWFramesContext \<Rightarrow> int
      \<Rightarrow> int \<times> AVHWFramesContext option"
  av_buffer_ref_ok :: "ref \<Rightarrow> bool"

subsection \<open>Candidate iterator\<close>

record HWAccelIterator =
  it_s_stream :: istringstream
  it_hw_type_device_string :: string
  it_hw_type_string :: string
  it_hw_type :: AVHWDeviceType
  it_device_subname :: string
  it_disabled_codecs :: string

text \<open>\<open>updateAccelList_\<close> (lines 565-577): the new value of \<open>accel_list\<close>.\<close>

definition updateAccelList ::
  "platform \<Rightarrow> string \<Rightarrow> VideoAccelerationType \<Rightarrow> bool \<Rightarrow> AVDictionary option \<Rightarrow> string" where
  "updateAccelList plat accel_list va_type isEncoder dict =
     (let new_accels = (if isEncoder then getEncoderConfiguration plat va_type dict
                        else getDecoderConfiguration plat va_type dict)
      in if new_accels = [] then accel_list
         else if accel_list = [] then new_accels
         else accel_list @ '','' @ new_accels)"

text \<open>The value of \<open>accel_list\<close> at line 521 of the constructor.\<close>

definition accel_list ::
  "platform \<Rightarrow> VideoAccelerationType \<Rightarrow> bool \<Rightarrow> AVDictionary option \<Rightarrow> string" where
  "accel_list plat va_type isEncoder dict =
     (let l0 = [];
          l1 = (if va_type \<noteq> VIDEO_ACCELERATION_NONE
                then updateAccelList plat l0 va_type isEncoder dict else l0)
      in if va_type = VIDEO_ACCELERATION_ANY
         then (if l1 \<noteq> [] then l1 @ '','' else l1)
         else l1)"

text \<open>Lines 523-532: the stream the constructor leaves in \<open>s_stream_\<close>.\<close>

definition open_stream :: "VideoAccelerationType \<Rightarrow> string \<Rightarrow> istringstream" where
  "open_stream va_type list =
     (if list = [] \<and> va_type \<noteq> VIDEO_ACCELERATION_NONE \<and> va_type \<noteq> VIDEO_ACCELERATION_ANY
      then broken_stream
      else fresh_stream list)"

definition new_HWAccelIterator ::
  "platform \<Rightarrow> VideoAccelerationType \<Rightarrow> bool \<Rightarrow> AVDictionary option \<Rightarrow> HWAccelIterator" where
  "new_HWAccelIterator plat va_type isEncoder dict =
     \<lparr>it_s_stream = open_stream va_type (accel_list plat va_type isEncoder dict),
      it_hw_type_device_string = [],
      it_hw_type_string = [],
      it_hw_type = AV_HWDEVICE_TYPE_NONE,
      it_device_subname = [],
      it_disabled_codecs =
        (if va_type \<noteq> VIDEO_ACCELERATION_NONE
         then (if isEncoder then getEncoderDisabledCodecs plat dict
               else getDecoderDisabledCodecs plat dict)
         else [])\<rparr>"

definition good :: "HWAccelIterator \<Rightarrow> bool" where
  "good it = stream_good (it_s_stream it)"

text \<open>\<open>std::string::find(char)\<close>: the first position of the character, or \<open>npos\<close>.\<close>

fun find_char :: "string \<Rightarrow> char \<Rightarrow> nat option" where
  "find_char [] c = None"
| "find_char (x # xs) c =
     (if x = c then Some 0 else map_option Suc (find_char xs c))"

definition parse_next :: "libav \<Rightarrow> HWAccelIterator \<Rightarrow> HWAccelIterator" where
  "parse_next lib it =
     (let (tok, st) = getline (it_s_stream it) (it_hw_type_device_string it) CHR '','';
          it1 = it\<lparr>it_s_stream := st, it_hw_type_device_string := tok\<rparr>;
          it2 = (case find_char tok CHR ''.'' of
                   Some index \<Rightarrow>
                     it1\<lparr>it_device_subname := drop (index + 1) tok,
                         it_hw_type_string := take index tok\<rparr>
                 | None \<Rightarrow> it1\<lparr>it_device_subname := [], it_hw_type_string := tok\<rparr>)
      in it2\<lparr>it_hw_type := av_hwdevice_find_type_by_name lib (it_hw_type_string it2)\<rparr>)"

lemma parse_next_stream:
  "it_s_stream (parse_next lib it) =
     snd (getline (it_s_stream it) (it_hw_type_device_string it) CHR '','')"
  by (simp add: parse_next_def Let_def split: prod.splits option.splits)

text \<open>
  Modelled from the spec: the loop of the caller, which is not in the header. Section 2
  has the caller ask the iterator for the next candidate for as long as \<open>good()\<close>
  holds. \<open>candidates\<close> lists the entries \<open>hw_type_device_string()\<close> that loop sees.
\<close>

function candidates :: "libav \<Rightarrow> HWAccelIterator \<Rightarrow> string list" where
  "candidates lib it =
     (if good it
      then (let it' = parse_next lib it in it_hw_type_device_string it' # candidates lib it')
      else [])"
  by pat_completeness auto
termination
proof (relation "measure (\<lambda>(lib, it). stream_measure (it_s_stream it))")
  show "wf (measure (\<lambda>(lib, it). stream_measure (it_s_stream it)))"
    by simp
next
  fix lib :: libav and it it' :: HWAccelIterator
  assume g: "good it" and n: "it' = parse_next lib it"
  obtain name s' where e: "(name, s') = getline (it_s_stream it) (it_hw_type_device_string it) CHR '',''"
    by (metis surj_pair)
  from g have "stream_good (it_s_stream it)"
    by (simp add: good_def)
  from getline_decreases[OF this e] e[symmetric] n
  show "((lib, it'), (lib, it)) \<in> measure (\<lambda>(lib, it). stream_measure (it_s_stream it))"
    by (simp add: parse_next_stream)
qed

declare candidates.simps [simp del]

subsection \<open>Device validation\<close>

text \<open>\<open>std::string::find(const std::string&)\<close>: the first position where the argument
  occurs, or \<open>npos\<close>.\<close>

fun find_str :: "string \<Rightarrow> string \<Rightarrow> nat option" where
  "find_str [] pat = (if pat = [] then Some 0 else None)"
| "find_str (c # cs) pat =
     (if take (length pat) (c # cs) = pat then Some 0 else map_option Suc (find_str cs pat))"

text \<open>
  \<open>hw_check_device\<close> (lines 177-208), given what \<open>ctx->data\<close> holds. The local
  \<open>device_name\<close> is declared at line 188 and never assigned; \<open>hw_name\<close> is read by
  the log messages only, which are commented out.
\<close>

definition hw_check_device ::
  "libav \<Rightarrow> AVHWDeviceContext option \<Rightarrow> AVHWDeviceType \<Rightarrow> string \<Rightarrow> bool" where
  "hw_check_device lib ctx hw_type device_subname =
     (case ctx of
        None \<Rightarrow> False
      | Some hw_device_ctx \<Rightarrow>
          if \<not> dev_hwctx hw_device_ctx then False
          else
            let hw_name = av_hwdevice_get_type_name lib hw_type;
                hw_name = (if hw_type = AV_HWDEVICE_TYPE_QSV then Some ''MFX'' else hw_name);
                ret = True;
                device_name = [];
                ret = (if dev_type hw_device_ctx = AV_HWDEVICE_TYPE_VAAPI
                       then hw_type \<noteq> AV_HWDEVICE_TYPE_QSV else ret);
                ret = (if ret \<and> device_subname \<noteq> [] \<and> find_str device_name device_subname = None
                       then False else ret)
            in ret)"

subsection \<open>Codec selector\<close>

text \<open>The loop of \<open>hw_check_codec\<close> (lines 380-387) on the rest of the stream.\<close>

function disabled_scan :: "istringstream \<Rightarrow> string \<Rightarrow> string \<Rightarrow> bool" where
  "disabled_scan s cname hw_name =
     (if stream_good s
      then (let (name, s') = getline s [] CHR '','' in
            if name = cname \<or> name = hw_name \<or> name = cname @ hw_name \<or> name = ''hw''
            then False
            else disabled_scan s' cname hw_name)
      else True)"
  by pat_completeness auto
termination
  by (relation "measure (\<lambda>(s, cname, hw_name). stream_measure s)") (auto dest: getline_decreases)

declare disabled_scan.simps [simp del]

text \<open>
  \<open>hw_check_codec\<close> (lines 374-389). \<open>CV_Assert\<close> throws on a \<open>NULL\<close> list, and
  \<open>std::string(".") + av_hwdevice_get_type_name(hw_type)\<close> reads the name the library
  returns, which is \<open>NULL\<close> for a type it does not know.
\<close>

definition hw_check_codec ::
  "libav \<Rightarrow> AVCodec \<Rightarrow> AVHWDeviceType \<Rightarrow> string option \<Rightarrow> hw_fault + bool" where
  "hw_check_codec lib codec hw_type disabled_codecs =
     (case disabled_codecs of
        None \<Rightarrow> Inl AssertionFailed
      | Some disabled \<Rightarrow>
          (case av_hwdevice_get_type_name lib hw_type of
             None \<Rightarrow> Inl NullDereference
           | Some type_name \<Rightarrow>
               let hw_name = ''.'' @ type_name
               in Inr (disabled_scan (fresh_stream disabled) (codec_name codec) hw_name)))"

text \<open>
  The loop of lines 413-419 over the rest of \<open>c->pix_fmts\<close>. The result tells whether
  the function returns \<open>c\<close>, and gives the value of \<open>*hw_pix_fmt\<close>.
\<close>

fun native_fmt_loop ::
  "libav \<Rightarrow> AVCodec \<Rightarrow> AVHWDeviceType \<Rightarrow> string option \<Rightarrow> AVPixelFormat \<Rightarrow> AVPixelFormat list
    \<Rightarrow> AVPixelFormat \<Rightarrow> hw_fault + (bool \<times> AVPixelFormat)" where
  "native_fmt_loop lib c hw_type disabled_codecs hw_native_fmt [] hw_pix_fmt =
     Inr (False, hw_pix_fmt)"
| "native_fmt_loop lib c hw_type disabled_codecs hw_native_fmt (p # ps) hw_pix_fmt =
     (if p = AV_PIX_FMT_NONE then Inr (False, hw_pix_fmt)
      else if p = hw_native_fmt
      then (case hw_check_codec lib c hw_type disabled_codecs of
              Inl e \<Rightarrow> Inl e
            | Inr True \<Rightarrow> Inr (True, hw_native_fmt)
            | Inr False \<Rightarrow>
                native_fmt_loop lib c hw_type disabled_codecs hw_native_fmt ps hw_native_fmt)
      else native_fmt_loop lib c hw_type disabled_codecs hw_native_fmt ps hw_pix_fmt)"

text \<open>The loop of lines 421-430 over the rest of the hardware configurations.\<close>

fun hw_config_loop ::
  "libav \<Rightarrow> AVCodec \<Rightarrow> AVHWDeviceType \<Rightarrow> string option \<Rightarrow> AVCodecHWConfig list
    \<Rightarrow> AVPixelFormat \<Rightarrow> hw_fault + (bool \<times> AVPixelFormat)" where
  "hw_config_loop lib c hw_type disabled_codecs [] hw_pix_fmt = Inr (False, hw_pix_fmt)"
| "hw_config_loop lib c hw_type disabled_codecs (hw_config # rest) hw_pix_fmt =
     (if cfg_device_type hw_config = hw_type
      then (case hw_check_codec lib c hw_type disabled_codecs of
              Inl e \<Rightarrow> Inl e
            | Inr True \<Rightarrow> Inr (True, cfg_pix_fmt hw_config)
            | Inr False \<Rightarrow>
                hw_config_loop lib c hw_type disabled_codecs rest (cfg_pix_fmt hw_config))
      else hw_config_loop lib c hw_type disabled_codecs rest hw_pix_fmt)"

text \<open>
  The loop of \<open>hw_find_codec\<close> (lines 396-434) over the codecs \<open>av_codec_iterate\<close> has
  still to return. The result is the codec returned and the value of \<open>*hw_pix_fmt\<close>.
\<close>

fun find_codec_loop ::
  "libav \<Rightarrow> AVCodec list \<Rightarrow> nat \<Rightarrow> AVHWDeviceType \<Rightarrow> (AVCodec \<Rightarrow> int) \<Rightarrow> string option
    \<Rightarrow> AVPixelFormat \<Rightarrow> hw_fault + (AVCodec option \<times> AVPixelFormat)" where
  "find_codec_loop lib [] cid hw_type check_category disabled_codecs hw_pix_fmt =
     Inr (None, hw_pix_fmt)"
| "find_codec_loop lib (c # cs) cid hw_type check_category disabled_codecs hw_pix_fmt =
     (if check_category c = 0
      then find_codec_loop lib cs cid hw_type check_category disabled_codecs hw_pix_fmt
      else if codec_id c \<noteq> cid
      then find_codec_loop lib cs cid hw_type check_category disabled_codecs hw_pix_fmt
      else if codec_capabilities c AND AV_CODEC_CAP_EXPERIMENTAL \<noteq> 0
      then find_codec_loop lib cs cid hw_type check_category disabled_codecs hw_pix_fmt
      else if hw_type \<noteq> AV_HWDEVICE_TYPE_NONE
      then
        let hw_native_fmt = AV_PIX_FMT_NONE;
            hw_native_fmt =
              (if LIBAVUTIL_BUILD lib < AV_VERSION_INT 56 51 100
                  \<and> hw_type = AV_HWDEVICE_TYPE_VAAPI
               then AV_PIX_FMT_VAAPI_VLD else hw_native_fmt);
            hw_native_fmt =
              (if hw_type = AV_HWDEVICE_TYPE_CUDA then AV_PIX_FMT_CUDA else hw_native_fmt)
        in case (case codec_pix_fmts c of
                   Some pix_fmts \<Rightarrow>
                     if codec_is_encoder c \<and> hw_native_fmt \<noteq> AV_PIX_FMT_NONE
                     then native_fmt_loop lib c hw_type disabled_codecs hw_native_fmt
                            pix_fmts hw_pix_fmt
                     else Inr (False, hw_pix_fmt)
                 | None \<Rightarrow> Inr (False, hw_pix_fmt)) of
             Inl e \<Rightarrow> Inl e
           | Inr (True, fmt1) \<Rightarrow> Inr (Some c, fmt1)
           | Inr (False, fmt1) \<Rightarrow>
               (case hw_config_loop lib c hw_type disabled_codecs (codec_hw_configs c) fmt1 of
                  Inl e \<Rightarrow> Inl e
                | Inr (True, fmt2) \<Rightarrow> Inr (Some c, fmt2)
                | Inr (False, fmt2) \<Rightarrow>
                    find_codec_loop lib cs cid hw_type check_category disabled_codecs fmt2)
      else Inr (Some c, hw_pix_fmt))"

definition hw_find_codec ::
  "libav \<Rightarrow> nat \<Rightarrow> AVHWDeviceType \<Rightarrow> (AVCodec \<Rightarrow> int) \<Rightarrow> string option \<Rightarrow> AVPixelFormat
    \<Rightarrow> hw_fault + (AVCodec option \<times> AVPixelFormat)" where
  "hw_find_codec lib cid hw_type check_category disabled_codecs hw_pix_fmt =
     find_codec_loop lib (av_codec_iterate lib) cid hw_type check_category disabled_codecs
       hw_pix_fmt"

subsection \<open>Reference-counted buffers\<close>

text \<open>
  Device contexts and frame pools live in buffers of the library that count their
  references. The store is the mock collaborator of these buffers: a cell per buffer ever
  allocated (\<open>None\<close> once it is freed), and a count of the accesses that C++ leaves
  undefined (a reference to a freed buffer is used or released, a \<open>NULL\<close> is read).
  \<open>internal_refs\<close> are the references the library keeps inside a buffer for itself: the
  source device of a derived device, the device of a frame pool, the source pool of a
  derived pool. The library releases them when it frees the buffer.
\<close>

datatype payload = Device AVHWDeviceContext | Frames AVHWFramesContext

record AVBuffer =
  refcount :: nat
  data :: payload
  internal_refs :: "ref list"

record store =
  cells :: "AVBuffer option list"
  faults :: nat

definition lookup :: "store \<Rightarrow> ref \<Rightarrow> AVBuffer option" where
  "lookup s r = (if r < length (cells s) then cells s ! r else None)"

definition device_at :: "store \<Rightarrow> ref \<Rightarrow> AVHWDeviceContext option" where
  "device_at s r =
     (case lookup s r of
        Some b \<Rightarrow> (case data b of Device ctx \<Rightarrow> Some ctx | Frames ctx \<Rightarrow> None)
      | None \<Rightarrow> None)"

definition frames_at :: "store \<Rightarrow> ref \<Rightarrow> AVHWFramesContext option" where
  "frames_at s r =
     (case lookup s r of
        Some b \<Rightarrow> (case data b of Frames ctx \<Rightarrow> Some ctx | Device ctx \<Rightarrow> None)
      | None \<Rightarrow> None)"

definition fault :: "store \<Rightarrow> store" where
  "fault s = s\<lparr>faults := Suc (faults s)\<rparr>"

definition put :: "ref \<Rightarrow> AVBuffer option \<Rightarrow> store \<Rightarrow> store" where
  "put r b s = s\<lparr>cells := (cells s)[r := b]\<rparr>"

text \<open>Writing through \<open>ref->data\<close>.\<close>

definition update_data :: "ref \<Rightarrow> payload \<Rightarrow> store \<Rightarrow> store" where
  "update_data r p s =
     (case lookup s r of
        Some b \<Rightarrow> put r (Some (b\<lparr>data := p\<rparr>)) s
      | None \<Rightarrow> fault s)"

text \<open>One more reference to a buffer, counted: what the library does for the references
  it keeps itself, and what \<open>av_buffer_ref\<close> does when it succeeds.\<close>

definition take_ref :: "ref \<Rightarrow> store \<Rightarrow> ref option \<times> store" where
  "take_ref r s =
     (case lookup s r of
        Some b \<Rightarrow> (Some r, put r (Some (b\<lparr>refcount := Suc (refcount b)\<rparr>)) s)
      | None \<Rightarrow> (None, fault s))"

text \<open>
  \<open>av_buffer_ref\<close> as the header calls it: a new reference to the same buffer, or
  \<open>NULL\<close>, with the buffer untouched, when the library has no memory for it.
\<close>

definition av_buffer_ref :: "libav \<Rightarrow> ref \<Rightarrow> store \<Rightarrow> ref option \<times> store" where
  "av_buffer_ref lib r s = (if av_buffer_ref_ok lib r then take_ref r s else (None, s))"

text \<open>A new buffer with one reference, at the next free address; the library takes
  the references it keeps inside it.\<close>

definition new_buffer :: "payload \<Rightarrow> ref list \<Rightarrow> store \<Rightarrow> ref \<times> store" where
  "new_buffer p refs s =
     (let s1 = fold (\<lambda>r s. snd (take_ref r s)) refs s
      in (length (cells s1),
          s1\<lparr>cells := cells s1 @ [Some \<lparr>refcount = 1, data = p, internal_refs = refs\<rparr>]\<rparr>))"

text \<open>
  The references given up when a buffer is freed: \<open>hwdevice_ctx_free\<close> of the library
  first calls the \<open>free\<close> callback of the context, here \<open>FreeChildContext::free\<close>
  (lines 226-230), which releases \<open>user_opaque\<close> when it is set; then the library
  releases its own.
\<close>

definition owned_refs :: "AVBuffer \<Rightarrow> ref list" where
  "owned_refs b =
     (case data b of
        Device ctx \<Rightarrow>
          (case dev_free ctx of
             Some FreeChildContext \<Rightarrow>
               (case dev_user_opaque ctx of Some child_ctx \<Rightarrow> [child_ctx] | None \<Rightarrow> [])
           | None \<Rightarrow> [])
      | Frames ctx \<Rightarrow> [])
     @ internal_refs b"

definition weight :: "store \<Rightarrow> nat" where
  "weight s =
     sum_list (map (\<lambda>c. case c of None \<Rightarrow> 0 | Some b \<Rightarrow> Suc (refcount b)) (cells s))"

lemma weight_fault: "weight (fault s) = weight s"
  by (simp add: weight_def fault_def)

lemma weight_put:
  assumes "lookup s r = Some b"
  shows "weight (put r c s) + Suc (refcount b) =
           weight s + (case c of None \<Rightarrow> 0 | Some b' \<Rightarrow> Suc (refcount b'))"
proof -
  from assms have r: "r < length (cells s)" and c: "cells s ! r = Some b"
    by (auto simp: lookup_def split: if_splits)
  let ?f = "\<lambda>c. case c of None \<Rightarrow> 0 | Some b \<Rightarrow> Suc (refcount b)"
  have "sum_list ((map ?f (cells s))[r := ?f c]) + (map ?f (cells s)) ! r
          = sum_list (map ?f (cells s)) + ?f c"
  proof -
    have le: "(map ?f (cells s)) ! r \<le> sum_list (map ?f (cells s))"
      using r by (intro elem_le_sum_list) simp
    have "sum_list ((map ?f (cells s))[r := ?f c])
            = sum_list (map ?f (cells s)) + ?f c - (map ?f (cells s)) ! r"
      using r by (simp add: sum_list_update)
    with le show ?thesis
      by simp
  qed
  with r c show ?thesis
    by (simp add: weight_def put_def map_update)
qed

text \<open>
  Releasing references, the pending ones first: a release of a buffer with other
  references left takes one off the count; the release of its last reference frees the
  buffer and releases the references it owned; the release of a reference to a freed
  buffer is a fault.
\<close>

function release :: "ref list \<Rightarrow> store \<Rightarrow> store" where
  "release [] s = s"
| "release (r # rs) s =
     (case lookup s r of
        None \<Rightarrow> release rs (fault s)
      | Some b \<Rightarrow>
          if 1 < refcount b
          then release rs (put r (Some (b\<lparr>refcount := refcount b - 1\<rparr>)) s)
          else release (owned_refs b @ rs) (put r None s))"
  by pat_completeness auto
termination
proof (relation "measures [\<lambda>(rs, s). weight s, \<lambda>(rs, s). length rs]")
  show "wf (measures [\<lambda>(rs, s). weight s, \<lambda>(rs, s). length rs])"
    by simp
next
  fix r :: ref and rs :: "ref list" and s :: store
  show "((rs, fault s), (r # rs, s)) \<in> measures [\<lambda>(rs, s). weight s, \<lambda>(rs, s). length rs]"
    by (simp add: weight_fault)
next
  fix r :: ref and rs :: "ref list" and s :: store and b :: AVBuffer
  assume "lookup s r = Some b" "1 < refcount b"
  with weight_put[of s r b "Some (b\<lparr>refcount := refcount b - 1\<rparr>)"]
  show "((rs, put r (Some (b\<lparr>refcount := refcount b - 1\<rparr>)) s), (r # rs, s))
          \<in> measures [\<lambda>(rs, s). weight s, \<lambda>(rs, s). length rs]"
    by simp
next
  fix r :: ref and rs :: "ref list" and s :: store and b :: AVBuffer
  assume "lookup s r = Some b" "\<not> 1 < refcount b"
  with weight_put[of s r b None]
  show "((owned_refs b @ rs, put r None s), (r # rs, s))
          \<in> measures [\<lambda>(rs, s). weight s, \<lambda>(rs, s). length rs]"
    by simp
qed

text \<open>\<open>av_buffer_unref(&ref)\<close>; on a \<open>NULL\<close> reference it does nothing.\<close>

definition av_buffer_unref :: "ref option \<Rightarrow> store \<Rightarrow> store" where
  "av_buffer_unref ref s = (case ref of None \<Rightarrow> s | Some r \<Rightarrow> release [r] s)"

definition AVERROR_EINVAL :: int where
  "AVERROR_EINVAL = - 22"

subsection \<open>Calls into the library\<close>

text \<open>
  Each call asks the library for its answer and puts the context it answers with into a
  new buffer. A source reference that is not a live device context of the store is a
  fault.
\<close>

definition call_hwdevice_ctx_create ::
  "libav \<Rightarrow> AVHWDeviceType \<Rightarrow> string option \<Rightarrow> store \<Rightarrow> int \<times> ref option \<times> store" where
  "call_hwdevice_ctx_create lib type device s =
     (case av_hwdevice_ctx_create lib type device of
        (err, None) \<Rightarrow> (err, None, s)
      | (err, Some ctx) \<Rightarrow>
          (let (r, s') = new_buffer (Device ctx) [] s in (err, Some r, s')))"

definition call_hwdevice_ctx_create_derived ::
  "libav \<Rightarrow> AVHWDeviceType \<Rightarrow> ref \<Rightarrow> store \<Rightarrow> int \<times> ref option \<times> store" where
  "call_hwdevice_ctx_create_derived lib type src_ref s =
     (case device_at s src_ref of
        None \<Rightarrow> (AVERROR_EINVAL, None, fault s)
      | Some src \<Rightarrow>
          (case av_hwdevice_ctx_create_derived lib type src of
             (err, None) \<Rightarrow> (err, None, s)
           | (err, Some ctx) \<Rightarrow>
               (let (r, s') = new_buffer (Device ctx) [src_ref] s in (err, Some r, s'))))"

definition call_get_hw_frames_parameters ::
  "libav \<Rightarrow> AVCodecContext \<Rightarrow> ref \<Rightarrow> AVPixelFormat \<Rightarrow> store \<Rightarrow> int \<times> ref option \<times> store" where
  "call_get_hw_frames_parameters lib codec_ctx device_ref hw_format s =
     (case device_at s device_ref of
        None \<Rightarrow> (AVERROR_EINVAL, None, fault s)
      | Some dev \<Rightarrow>
          (case avcodec_get_hw_frames_parameters lib codec_ctx dev hw_format of
             (res, None) \<Rightarrow> (res, None, s)
           | (res, Some frames) \<Rightarrow>
               (let (r, s') = new_buffer (Frames frames) [device_ref] s in (res, Some r, s'))))"

definition call_hwframe_ctx_alloc :: "libav \<Rightarrow> ref \<Rightarrow> store \<Rightarrow> ref option \<times> store" where
  "call_hwframe_ctx_alloc lib device_ref s =
     (case device_at s device_ref of
        None \<Rightarrow> (None, fault s)
      | Some dev \<Rightarrow>
          (case av_hwframe_ctx_alloc lib dev of
             None \<Rightarrow> (None, s)
           | Some frames \<Rightarrow>
               (let (r, s') = new_buffer (Frames frames) [device_ref] s in (Some r, s'))))"

definition call_hwframe_ctx_create_derived ::
  "libav \<Rightarrow> AVPixelFormat \<Rightarrow> ref \<Rightarrow> ref \<Rightarrow> int \<Rightarrow> store \<Rightarrow> int \<times> ref option \<times> store" where
  "call_hwframe_ctx_create_derived lib format derived_device_ref source_frame_ref flags s =
     (case (device_at s derived_device_ref, frames_at s source_frame_ref) of
        (Some dev, Some src) \<Rightarrow>
          (case av_hwframe_ctx_create_derived lib format dev src flags of
             (res, None) \<Rightarrow> (res, None, s)
           | (res, Some frames) \<Rightarrow>
               (let (r, s') = new_buffer (Frames frames) [derived_device_ref, source_frame_ref] s
                in (res, Some r, s')))
      | _ \<Rightarrow> (AVERROR_EINVAL, None, fault s))"

subsection \<open>Device context builder\<close>

text \<open>
  \<open>hw_create_derived_context\<close> (lines 210-238): the context returned, and the store
  afterwards.
\<close>

definition hw_create_derived_context ::
  "libav \<Rightarrow> AVHWDeviceType \<Rightarrow> ref \<Rightarrow> store \<Rightarrow> ref option \<times> store" where
  "hw_create_derived_context lib hw_type hw_device_ctx s =
     (let (err, derived_ctx, s1) = call_hwdevice_ctx_create_derived lib hw_type hw_device_ctx s
      in case derived_ctx of
           None \<Rightarrow> (None, s1)
         | Some d \<Rightarrow>
             if err < 0 then (None, av_buffer_unref (Some d) s1)
             else
               (case device_at s1 d of
                  None \<Rightarrow> (Some d, fault s1)
                | Some ctx \<Rightarrow>
                    let (child_ref, s2) = av_buffer_ref lib hw_device_ctx s1;
                        ctx = ctx\<lparr>dev_user_opaque := child_ref\<rparr>;
                        ctx = ctx\<lparr>dev_free := Some FreeChildContext\<rparr>
                    in (Some d, update_data d (Device ctx) s2)))"

text \<open>\<open>snprintf(device, sizeof(device), "%d", n)\<close>: the decimal digits of \<open>n\<close>.\<close>

function dec_nat :: "nat \<Rightarrow> string" where
  "dec_nat n =
     (if n < 10 then [char_of (48 + n)] else dec_nat (n div 10) @ [char_of (48 + n mod 10)])"
  by pat_completeness auto
termination
  by (relation "measure (\<lambda>n. n)") auto

declare dec_nat.simps [simp del]

definition snprintf_d :: "int \<Rightarrow> string" where
  "snprintf_d n = (if n < 0 then ''-'' @ dec_nat (nat (- n)) else dec_nat (nat n))"

text \<open>Lines 257-267: the device string passed to the library, \<open>NULL\<close> when the index
  is out of range.\<close>

definition device_selector :: "AVHWDeviceType \<Rightarrow> int \<Rightarrow> string option" where
  "device_selector child_type hw_device =
     (if 0 \<le> hw_device \<and> hw_device < 100000
      then (if child_type = AV_HWDEVICE_TYPE_VAAPI
            then Some (''/dev/dri/renderD'' @ snprintf_d (128 + hw_device))
            else Some (snprintf_d hw_device))
      else None)"

text \<open>The loop of lines 256-292 over the child types still to try.\<close>

fun create_device_loop ::
  "libav \<Rightarrow> AVHWDeviceType \<Rightarrow> int \<Rightarrow> string \<Rightarrow> AVHWDeviceType list \<Rightarrow> store
    \<Rightarrow> ref option \<times> store" where
  "create_device_loop lib hw_type hw_device device_subname [] s = (None, s)"
| "create_device_loop lib hw_type hw_device device_subname (child_type # rest) s =
     (let pdevice = device_selector child_type hw_device;
          (err, hw_device_ctx, s1) = call_hwdevice_ctx_create lib child_type pdevice s
      in case hw_device_ctx of
           Some r \<Rightarrow>
             if err \<ge> 0 then
               (if \<not> hw_check_device lib (device_at s1 r) hw_type device_subname
                then create_device_loop lib hw_type hw_device device_subname rest
                       (av_buffer_unref (Some r) s1)
                else if hw_type \<noteq> child_type
                then (let (derived_ctx, s2) = hw_create_derived_context lib hw_type r s1
                      in (derived_ctx, av_buffer_unref (Some r) s2))
                else (Some r, s1))
             else create_device_loop lib hw_type hw_device device_subname rest s1
         | None \<Rightarrow> create_device_loop lib hw_type hw_device device_subname rest s1)"

text \<open>\<open>hw_create_device\<close> (lines 241-294).\<close>

definition hw_create_device ::
  "libav \<Rightarrow> platform \<Rightarrow> AVHWDeviceType \<Rightarrow> int \<Rightarrow> string \<Rightarrow> bool \<Rightarrow> store
    \<Rightarrow> ref option \<times> store" where
  "hw_create_device lib plat hw_type hw_device device_subname use_opencl s =
     (if AV_HWDEVICE_TYPE_NONE = hw_type then (None, s)
      else
        let child_types = [hw_type];
            child_types =
              (if hw_type = AV_HWDEVICE_TYPE_QSV
               then (case plat of
                       Windows \<Rightarrow> [AV_HWDEVICE_TYPE_D3D11VA, AV_HWDEVICE_TYPE_DXVA2]
                     | Posix \<Rightarrow> [AV_HWDEVICE_TYPE_VAAPI])
               else child_types)
        in create_device_loop lib hw_type hw_device device_subname child_types s)"

subsection \<open>Frame pool builder\<close>

text \<open>
  Lines 299-307: the context the frames are allocated on; \<open>None\<close> when \<open>user_opaque\<close>
  of a QSV device does not refer to a live device context.
\<close>

definition frames_child_ctx :: "store \<Rightarrow> ref \<Rightarrow> AVHWDeviceContext \<Rightarrow> ref option" where
  "frames_child_ctx s hw_device_ctx device_ctx =
     (if AV_HWDEVICE_TYPE_QSV = dev_type device_ctx
      then (case dev_user_opaque device_ctx of
              None \<Rightarrow> Some hw_device_ctx
            | Some ctx \<Rightarrow>
                (case device_at s ctx of
                   None \<Rightarrow> None
                 | Some child \<Rightarrow>
                     if AV_HWDEVICE_TYPE_DXVA2 \<noteq> dev_type child then Some ctx
                     else Some hw_device_ctx))
      else Some hw_device_ctx)"

text \<open>Lines 308-320: the frame context of the capability query, or a blank one.\<close>

definition frames_query ::
  "libav \<Rightarrow> AVCodecContext option \<Rightarrow> ref \<Rightarrow> AVPixelFormat \<Rightarrow> store \<Rightarrow> ref option \<times> store" where
  "frames_query lib codec_ctx child_ctx hw_format s =
     (let (hw_frames_ref, s1) =
            (case codec_ctx of
               Some cc \<Rightarrow>
                 (let (res, ref, s') = call_get_hw_frames_parameters lib cc child_ctx hw_format s
                  in (ref, s'))
             | None \<Rightarrow> (None, s))
      in case hw_frames_ref of
           None \<Rightarrow> call_hwframe_ctx_alloc lib child_ctx s1
         | Some r \<Rightarrow> (Some r, s1))"

text \<open>
  Lines 326-344: the fields written into the frame context. \<open>direct\<close> is
  \<open>child_ctx == hw_device_ctx\<close>, \<open>child\<close> is the device context of \<open>child_ctx\<close>, and
  \<open>valid_hw_formats[0]\<close> of an array that holds its end mark only is the end mark.
\<close>

definition fill_frames_ctx ::
  "libav \<Rightarrow> AVHWFramesContext \<Rightarrow> bool \<Rightarrow> AVHWDeviceContext \<Rightarrow> int \<Rightarrow> int \<Rightarrow> AVPixelFormat
    \<Rightarrow> AVHWFramesContext" where
  "fill_frames_ctx lib frames_ctx direct child width height hw_format =
     (let frames_ctx = frames_ctx\<lparr>frames_width := width\<rparr>;
          frames_ctx = frames_ctx\<lparr>frames_height := height\<rparr>;
          frames_ctx =
            (if frames_format frames_ctx = AV_PIX_FMT_NONE
             then (if direct then frames_ctx\<lparr>frames_format := hw_format\<rparr>
                   else (case av_hwdevice_get_hwframe_constraints lib child of
                           Some valid_hw_formats \<Rightarrow>
                             frames_ctx\<lparr>frames_format :=
                               (case valid_hw_formats of [] \<Rightarrow> AV_PIX_FMT_NONE | f # fs \<Rightarrow> f)\<rparr>
                         | None \<Rightarrow> frames_ctx))
             else frames_ctx);
          frames_ctx =
            (if frames_sw_format frames_ctx = AV_PIX_FMT_NONE
             then frames_ctx\<lparr>frames_sw_format := HW_DEFAULT_SW_FORMAT\<rparr>
             else frames_ctx);
          frames_ctx =
            (if frames_initial_pool_size frames_ctx = 0
             then frames_ctx\<lparr>frames_initial_pool_size := HW_DEFAULT_POOL_SIZE\<rparr>
             else frames_ctx)
      in frames_ctx)"

text \<open>
  \<open>hw_create_frames\<close> (lines 296-372). \<open>av_hwframe_ctx_init\<close> answers with its result
  code and leaves the fields the header has set as they are.
\<close>

definition hw_create_frames ::
  "libav \<Rightarrow> AVCodecContext option \<Rightarrow> ref \<Rightarrow> int \<Rightarrow> int \<Rightarrow> AVPixelFormat \<Rightarrow> store
    \<Rightarrow> ref option \<times> store" where
  "hw_create_frames lib codec_ctx hw_device_ctx width height hw_format s =
     (case device_at s hw_device_ctx of
        None \<Rightarrow> (None, fault s)
      | Some device_ctx \<Rightarrow>
          (case frames_child_ctx s hw_device_ctx device_ctx of
             None \<Rightarrow> (None, fault s)
           | Some child_ctx \<Rightarrow>
               (case device_at s child_ctx of
                  None \<Rightarrow> (None, fault s)
                | Some child \<Rightarrow>
                    (let (hw_frames_ref, s2) = frames_query lib codec_ctx child_ctx hw_format s
                     in case hw_frames_ref of
                          None \<Rightarrow> (None, s2)
                        | Some fr \<Rightarrow>
                            (case frames_at s2 fr of
                               None \<Rightarrow> (None, fault s2)
                             | Some frames0 \<Rightarrow>
                                 let frames_ctx =
                                       fill_frames_ctx lib frames0 (child_ctx = hw_device_ctx)
                                         child width height hw_format;
                                     s3 = update_data fr (Frames frames_ctx) s2;
                                     res = av_hwframe_ctx_init lib frames_ctx
                                 in if res < 0 then (None, av_buffer_unref (Some fr) s3)
                                    else if child_ctx \<noteq> hw_device_ctx
                                    then
                                      (let flags = AV_HWFRAME_MAP_READ OR AV_HWFRAME_MAP_WRITE;
                                           (res, derived_frame_ctx, s4) =
                                             call_hwframe_ctx_create_derived lib hw_format
                                               hw_device_ctx fr flags s3;
                                           s5 = av_buffer_unref (Some fr) s4
                                       in if res < 0 then (None, s5)
                                          else
                                            (case derived_frame_ctx of
                                               None \<Rightarrow> (None, fault s5)
                                             | Some d \<Rightarrow>
                                                 (case frames_at s5 d of
                                                    None \<Rightarrow> (Some d, fault s5)
                                                  | Some derived \<Rightarrow>
                                                      (Some d,
                                                       update_data d
                                                         (Frames (derived\<lparr>frames_user_opaque := Some fr\<rparr>))
                                                         s5))))
                                    else (Some fr, s3))))))"

subsection \<open>Format-selection callback\<close>

text \<open>\<open>fmt[0]\<close> of the offered array, which ends with \<open>AV_PIX_FMT_NONE\<close>.\<close>

definition first_format :: "AVPixelFormat list \<Rightarrow> AVPixelFormat" where
  "first_format fmt = (case fmt of [] \<Rightarrow> AV_PIX_FMT_NONE | f # fs \<Rightarrow> f)"

text \<open>
  The loop of lines 450-461 over the rest of the offered formats: the format returned,
  if one is, the codec context and the store.
\<close>

fun offered_loop ::
  "libav \<Rightarrow> AVCodecContext \<Rightarrow> ref \<Rightarrow> AVCodecHWConfig \<Rightarrow> AVPixelFormat list \<Rightarrow> store
    \<Rightarrow> AVPixelFormat option \<times> AVCodecContext \<times> store" where
  "offered_loop lib ctx dev hw_config [] s = (None, ctx, s)"
| "offered_loop lib ctx dev hw_config (f # fs) s =
     (if f = AV_PIX_FMT_NONE then (None, ctx, s)
      else if f = cfg_pix_fmt hw_config
      then (if cfg_methods hw_config AND AV_CODEC_HW_CONFIG_METHOD_HW_FRAMES_CTX \<noteq> 0
            then
              let ctx1 = ctx\<lparr>cc_sw_pix_fmt := HW_DEFAULT_SW_FORMAT\<rparr>;
                  (frames, s1) =
                    hw_create_frames lib (Some ctx1) dev (cc_width ctx1) (cc_height ctx1) f s;
                  ctx2 = ctx1\<lparr>cc_hw_frames_ctx := frames\<rparr>
              in if frames \<noteq> None then (Some f, ctx2, s1)
                 else offered_loop lib ctx2 dev hw_config fs s1
            else offered_loop lib ctx dev hw_config fs s)
      else offered_loop lib ctx dev hw_config fs s)"

text \<open>The loop of lines 445-463 over the rest of the hardware configurations.\<close>

fun format_config_loop ::
  "libav \<Rightarrow> AVCodecContext \<Rightarrow> ref \<Rightarrow> AVHWDeviceType \<Rightarrow> AVCodecHWConfig list
    \<Rightarrow> AVPixelFormat list \<Rightarrow> store \<Rightarrow> AVPixelFormat option \<times> AVCodecContext \<times> store" where
  "format_config_loop lib ctx dev hw_type [] fmt s = (None, ctx, s)"
| "format_config_loop lib ctx dev hw_type (hw_config # rest) fmt s =
     (if cfg_device_type hw_config = hw_type
      then (case offered_loop lib ctx dev hw_config fmt s of
              (Some f, ctx', s') \<Rightarrow> (Some f, ctx', s')
            | (None, ctx', s') \<Rightarrow> format_config_loop lib ctx' dev hw_type rest fmt s')
      else format_config_loop lib ctx dev hw_type rest fmt s)"

text \<open>
  \<open>hw_get_format_callback\<close> (lines 439-466): the format returned, the codec context
  and the store. An attached device reference that is not a live device context is a
  fault.
\<close>

definition hw_get_format_callback ::
  "libav \<Rightarrow> AVCodecContext \<Rightarrow> AVPixelFormat list \<Rightarrow> store
    \<Rightarrow> AVPixelFormat \<times> AVCodecContext \<times> store" where
  "hw_get_format_callback lib ctx fmt s =
     (case cc_hw_device_ctx ctx of
        None \<Rightarrow> (first_format fmt, ctx, s)
      | Some dev \<Rightarrow>
          (case device_at s dev of
             None \<Rightarrow> (first_format fmt, ctx, fault s)
           | Some device_ctx \<Rightarrow>
               (case format_config_loop lib ctx dev (dev_type device_ctx)
                       (codec_hw_configs (cc_codec ctx)) fmt s of
                  (Some f, ctx', s') \<Rightarrow> (f, ctx', s')
                | (None, ctx', s') \<Rightarrow> (first_format fmt, ctx', s'))))"

subsection \<open>The specification's words for the resolved list\<close>

text \<open>
  The key of the role-specific override, the built-in default of the platform, and the
  fragment they resolve to: the override as it stands when the key is present, the default
  otherwise.
\<close>

definition override_key :: "bool \<Rightarrow> VideoAccelerationType \<Rightarrow> string" where
  "override_key isEncoder va_type =
     (if isEncoder then ''hw_encoders_'' else ''hw_decoders_'') @ getVideoAccelerationName va_type"

definition builtin_default :: "platform \<Rightarrow> bool \<Rightarrow> VideoAccelerationType \<Rightarrow> string" where
  "builtin_default plat isEncoder va_type =
     (if isEncoder then encoder_default plat va_type else decoder_default plat va_type)"

definition resolved_fragment ::
  "platform \<Rightarrow> VideoAccelerationType \<Rightarrow> bool \<Rightarrow> AVDictionary option \<Rightarrow> string" where
  "resolved_fragment plat va_type isEncoder dict =
     (case dict_value dict (override_key isEncoder va_type) of
        Some override \<Rightarrow> override
      | None \<Rightarrow> builtin_default plat isEncoder va_type)"

subsection \<open>An example library\<close>

text \<open>
  A library to run the operations on: the device type names of libavutil, a host where
  VAAPI and D3D11VA devices open and a QSV device derives from either, and three codecs.
\<close>

definition hw_type_names :: "(AVHWDeviceType \<times> string) list" where
  "hw_type_names =
     [(AV_HWDEVICE_TYPE_CUDA, ''cuda''), (AV_HWDEVICE_TYPE_DRM, ''drm''),
      (AV_HWDEVICE_TYPE_DXVA2, ''dxva2''), (AV_HWDEVICE_TYPE_D3D11VA, ''d3d11va''),
      (AV_HWDEVICE_TYPE_OPENCL, ''opencl''), (AV_HWDEVICE_TYPE_QSV, ''qsv''),
      (AV_HWDEVICE_TYPE_VAAPI, ''vaapi''), (AV_HWDEVICE_TYPE_VDPAU, ''vdpau''),
      (AV_HWDEVICE_TYPE_VIDEOTOOLBOX, ''videotoolbox''),
      (AV_HWDEVICE_TYPE_MEDIACODEC, ''mediacodec''), (AV_HWDEVICE_TYPE_VULKAN, ''vulkan'')]"

definition example_device :: "AVHWDeviceType \<Rightarrow> AVHWDeviceContext" where
  "example_device t = \<lparr>dev_type = t, dev_hwctx = True, dev_free = None, dev_user_opaque = None\<rparr>"

definition example_frames :: "AVPixelFormat \<Rightarrow> AVPixelFormat \<Rightarrow> int \<Rightarrow> AVHWFramesContext" where
  "example_frames f sw n =
     \<lparr>frames_format = f, frames_sw_format = sw, frames_width = 0, frames_height = 0,
      frames_initial_pool_size = n, frames_user_opaque = None\<rparr>"

definition h264_vaapi_config :: AVCodecHWConfig where
  "h264_vaapi_config =
     \<lparr>cfg_pix_fmt = AV_PIX_FMT_VAAPI_VLD, cfg_methods = 3, cfg_device_type = AV_HWDEVICE_TYPE_VAAPI\<rparr>"

definition h264_experimental :: AVCodec where
  "h264_experimental =
     \<lparr>codec_name = ''h264_next'', codec_id = 27, codec_capabilities = 512 + 2,
      codec_pix_fmts = None, codec_hw_configs = [], codec_is_encoder = False\<rparr>"

definition h264 :: AVCodec where
  "h264 =
     \<lparr>codec_name = ''h264'', codec_id = 27, codec_capabilities = 2,
      codec_pix_fmts = None, codec_hw_configs = [h264_vaapi_config], codec_is_encoder = False\<rparr>"

definition h264_qsv :: AVCodec where
  "h264_qsv =
     \<lparr>codec_name = ''h264_qsv'', codec_id = 27, codec_capabilities = 2,
      codec_pix_fmts = None,
      codec_hw_configs =
        [\<lparr>cfg_pix_fmt = AV_PIX_FMT_OTHER 116, cfg_methods = 3,
          cfg_device_type = AV_HWDEVICE_TYPE_QSV\<rparr>],
      codec_is_encoder = False\<rparr>"

definition example_lib :: libav where
  "example_lib =
     \<lparr>LIBAVUTIL_BUILD = AV_VERSION_INT 56 70 100,
      av_hwdevice_get_type_name = map_of hw_type_names,
      av_hwdevice_find_type_by_name =
        (\<lambda>name. case find (\<lambda>e. snd e = name) hw_type_names of
                   Some e \<Rightarrow> fst e | None \<Rightarrow> AV_HWDEVICE_TYPE_NONE),
      av_codec_iterate = [h264_experimental, h264, h264_qsv],
      av_hwdevice_ctx_create =
        (\<lambda>t device. if t = AV_HWDEVICE_TYPE_VAAPI \<or> t = AV_HWDEVICE_TYPE_D3D11VA
                     then (0, Some (example_device t)) else (- 38, None)),
      av_hwdevice_ctx_create_derived =
        (\<lambda>t src. if t = AV_HWDEVICE_TYPE_QSV then (0, Some (example_device t))
                  else (- 38, None)),
      avcodec_get_hw_frames_parameters =
        (\<lambda>cc dev f. if dev_type dev = AV_HWDEVICE_TYPE_VAAPI
                     then (0, Some (example_frames f AV_PIX_FMT_NONE 20))
                     else (- 2, None)),
      av_hwframe_ctx_alloc = (\<lambda>dev. Some (example_frames AV_PIX_FMT_NONE AV_PIX_FMT_NONE 0)),
      av_hwdevice_get_hwframe_constraints =
        (\<lambda>dev. if dev_type dev = AV_HWDEVICE_TYPE_D3D11VA then Some [AV_PIX_FMT_OTHER 174]
                else Some [AV_PIX_FMT_VAAPI_VLD]),
      av_hwframe_ctx_init = (\<lambda>frames. if frames_width frames \<le> 0 then - 22 else 0),
      av_hwframe_ctx_create_derived =
        (\<lambda>f dev src flags. (0, Some (src\<lparr>frames_format := f\<rparr>))),
      av_buffer_ref_ok = (\<lambda>r. True)\<rparr>"

definition empty_store :: store where
  "empty_store = \<lparr>cells = [], faults = 0\<rparr>"

text \<open>The contract of \<open>av_hwdevice_ctx_create\<close>: the context it opens has the type
  it was asked for.\<close>

definition creates_requested_type :: "libav \<Rightarrow> bool" where
  "creates_requested_type lib \<longleftrightarrow>
     (\<forall>t device err ctx. av_hwdevice_ctx_create lib t device = (err, Some ctx) \<longrightarrow> dev_type ctx = t)"

text \<open>A store with one D3D11VA device, and the store after a QSV device was derived
  from it.\<close>

definition d3d11_store :: store where
  "d3d11_store =
     \<lparr>cells = [Some \<lparr>refcount = 1, data = Device (example_device AV_HWDEVICE_TYPE_D3D11VA),
                      internal_refs = []\<rparr>],
      faults = 0\<rparr>"

definition qsv_store :: store where
  "qsv_store =
     \<lparr>cells = [Some \<lparr>refcount = 3, data = Device (example_device AV_HWDEVICE_TYPE_D3D11VA),
                      internal_refs = []\<rparr>,
               Some \<lparr>refcount = 1,
                     data = Device ((example_device AV_HWDEVICE_TYPE_QSV)
                              \<lparr>dev_user_opaque := Some 0, dev_free := Some FreeChildContext\<rparr>),
                     internal_refs = [0]\<rparr>],
      faults = 0\<rparr>"

text \<open>
  The example library on a host where \<open>av_buffer_ref\<close> finds no memory for a new
  reference, and the store after a QSV device was derived from the D3D11VA device there.
\<close>

definition no_reference_lib :: libav where
  "no_reference_lib = example_lib\<lparr>av_buffer_ref_ok := (\<lambda>r. False)\<rparr>"

definition childless_qsv_store :: store where
  "childless_qsv_store =
     \<lparr>cells = [Some \<lparr>refcount = 2, data = Device (example_device AV_HWDEVICE_TYPE_D3D11VA),
                      internal_refs = []\<rparr>,
               Some \<lparr>refcount = 1,
                     data = Device ((example_device AV_HWDEVICE_TYPE_QSV)
                              \<lparr>dev_user_opaque := None, dev_free := Some FreeChildContext\<rparr>),
                     internal_refs = [0]\<rparr>],
      faults = 0\<rparr>"

text \<open>A store with one VAAPI device, a codec context on it, and the store after a
  frame pool was built for that context.\<close>

definition vaapi_store :: store where
  "vaapi_store =
     \<lparr>cells = [Some \<lparr>refcount = 1, data = Device (example_device AV_HWDEVICE_TYPE_VAAPI),
                      internal_refs = []\<rparr>],
      faults = 0\<rparr>"

definition example_codec_ctx :: AVCodecContext where
  "example_codec_ctx =
     \<lparr>cc_codec = h264, cc_hw_device_ctx = Some 0, cc_hw_frames_ctx = None,
      cc_width = 1920, cc_height = 1080, cc_sw_pix_fmt = AV_PIX_FMT_NONE\<rparr>"

definition vaapi_frames_store :: store where
  "vaapi_frames_store =
     \<lparr>cells = [Some \<lparr>refcount = 2, data = Device (example_device AV_HWDEVICE_TYPE_VAAPI),
                      internal_refs = []\<rparr>,
               Some \<lparr>refcount = 1,
                     data = Frames \<lparr>frames_format = AV_PIX_FMT_VAAPI_VLD,
                                    frames_sw_format = AV_PIX_FMT_NV12,
                                    frames_width = 1920, frames_height = 1080,
                                    frames_initial_pool_size = 20,
                                    frames_user_opaque = None\<rparr>,
                     internal_refs = [0]\<rparr>],
      faults = 0\<rparr>"


section \<open>Properties\<close>

subsection \<open>Reading a comma-separated list\<close>

lemma getline_fresh_eof:
  assumes "dropWhile (\<lambda>c. c \<noteq> d) b = []"
  shows "getline (fresh_stream b) str d =
           (takeWhile (\<lambda>c. c \<noteq> d) b,
            \<lparr>buf = [], eofbit = True, failbit = (takeWhile (\<lambda>c. c \<noteq> d) b = [])\<rparr>)"
  using assms
  by (simp add: getline_def fresh_stream_def stream_good_def Let_def del: dropWhile_eq_Nil_conv)

lemma getline_fresh_delim:
  assumes "dropWhile (\<lambda>c. c \<noteq> d) b = x # rest"
  shows "getline (fresh_stream b) str d = (takeWhile (\<lambda>c. c \<noteq> d) b, fresh_stream rest)"
  using assms
  by (simp add: getline_def fresh_stream_def stream_good_def Let_def)

lemma not_good_eof: "\<not> stream_good \<lparr>buf = b, eofbit = True, failbit = f\<rparr>"
  by (simp add: stream_good_def)

lemma stream_good_fresh: "stream_good (fresh_stream b)"
  by (simp add: fresh_stream_def stream_good_def)

lemma read_tokens_not_good: "\<not> stream_good s \<Longrightarrow> read_tokens s = []"
  by (simp add: read_tokens.simps)

lemma read_tokens_eof:
  assumes "dropWhile (\<lambda>c. c \<noteq> CHR '','') b = []"
  shows "read_tokens (fresh_stream b) = [takeWhile (\<lambda>c. c \<noteq> CHR '','') b]"
  by (subst read_tokens.simps)
     (simp add: getline_fresh_eof[OF assms] stream_good_fresh not_good_eof read_tokens_not_good)

lemma read_tokens_delim:
  assumes "dropWhile (\<lambda>c. c \<noteq> CHR '','') b = x # rest"
  shows "read_tokens (fresh_stream b) =
           takeWhile (\<lambda>c. c \<noteq> CHR '','') b # read_tokens (fresh_stream rest)"
  by (subst read_tokens.simps) (simp add: getline_fresh_delim[OF assms] stream_good_fresh)

lemma read_tokens_comma:
  "read_tokens (fresh_stream (CHR '','' # cs)) = [] # read_tokens (fresh_stream cs)"
  using read_tokens_delim[of "CHR '','' # cs" "CHR '',''" cs] by simp

lemma read_tokens_other:
  assumes "c \<noteq> CHR '',''"
  shows "read_tokens (fresh_stream (c # cs)) =
           (case read_tokens (fresh_stream cs) of t # ts \<Rightarrow> (c # t) # ts | [] \<Rightarrow> [[c]])"
proof (cases "dropWhile (\<lambda>x. x \<noteq> CHR '','') cs")
  case Nil
  with assms have "dropWhile (\<lambda>x. x \<noteq> CHR '','') (c # cs) = []"
    by simp
  from read_tokens_eof[OF this] read_tokens_eof[OF Nil] assms show ?thesis
    by simp
next
  case (Cons d rest)
  with assms have "dropWhile (\<lambda>x. x \<noteq> CHR '','') (c # cs) = d # rest"
    by simp
  from read_tokens_delim[OF this] read_tokens_delim[OF Cons] assms show ?thesis
    by simp
qed

lemma read_tokens_fresh: "read_tokens (fresh_stream s) = split_on CHR '','' s"
proof (induction s)
  case Nil
  show ?case
    by (simp add: read_tokens_eof)
next
  case (Cons c cs)
  then show ?case
    by (cases "c = CHR '',''") (simp_all add: read_tokens_comma read_tokens_other)
qed

lemma split_on_not_Nil: "split_on d s \<noteq> []"
  by (induction s) (auto split: list.splits)

lemma split_on_snoc: "split_on d (s @ [d]) = split_on d s @ [[]]"
  by (induction s) (auto split: list.splits simp: split_on_not_Nil)

lemma getline_good_str: "stream_good s \<Longrightarrow> getline s str d = getline s [] d"
  by (simp add: getline_def)

lemma parse_next_token:
  "it_hw_type_device_string (parse_next lib it) =
     fst (getline (it_s_stream it) (it_hw_type_device_string it) CHR '','')"
  by (simp add: parse_next_def Let_def split: prod.splits option.splits)

lemma candidates_read_tokens: "candidates lib it = read_tokens (it_s_stream it)"
proof (induction lib it rule: candidates.induct)
  case (1 lib it)
  show ?case
  proof (cases "good it")
    case True
    then have g: "stream_good (it_s_stream it)"
      by (simp add: good_def)
    from 1[OF True refl] True g show ?thesis
      by (subst candidates.simps, subst read_tokens.simps)
         (simp add: parse_next_token parse_next_stream getline_good_str[OF g, of "it_hw_type_device_string it"]
            split: prod.splits)
  next
    case False
    then show ?thesis
      by (subst candidates.simps, subst read_tokens.simps) (simp add: good_def)
  qed
qed

lemma disabled_scan_tokens:
  "disabled_scan s cname hw_name =
     (\<forall>name \<in> set (read_tokens s).
        \<not> (name = cname \<or> name = hw_name \<or> name = cname @ hw_name \<or> name = ''hw''))"
proof (induction s cname hw_name rule: disabled_scan.induct)
  case (1 s cname hw_name)
  show ?case
  proof (cases "stream_good s")
    case True
    obtain name s' where e: "getline s [] CHR '','' = (name, s')"
      by (metis surj_pair)
    show ?thesis
    proof (cases "name = cname \<or> name = hw_name \<or> name = cname @ hw_name \<or> name = ''hw''")
      case hit: True
      with True e show ?thesis
        by (subst disabled_scan.simps, subst read_tokens.simps) auto
    next
      case miss: False
      from 1[OF True e[symmetric] refl miss] True e miss show ?thesis
        by (subst disabled_scan.simps, subst read_tokens.simps) auto
    qed
  next
    case False
    then show ?thesis
      by (subst disabled_scan.simps, subst read_tokens.simps) simp
  qed
qed

subsection \<open>Configuration resolver and candidate iterator\<close>

lemma configuration_fragment:
  "(if isEncoder then getEncoderConfiguration plat va_type dict
    else getDecoderConfiguration plat va_type dict) = resolved_fragment plat va_type isEncoder dict"
  by (simp add: getEncoderConfiguration_def getDecoderConfiguration_def resolved_fragment_def
      override_key_def builtin_default_def Let_def split: option.splits)

lemma accel_list_fragment:
  "accel_list plat va_type isEncoder dict =
     (if va_type = VIDEO_ACCELERATION_NONE then []
      else if va_type = VIDEO_ACCELERATION_ANY \<and> resolved_fragment plat va_type isEncoder dict \<noteq> []
      then resolved_fragment plat va_type isEncoder dict @ '',''
      else resolved_fragment plat va_type isEncoder dict)"
  using configuration_fragment[of isEncoder plat va_type dict]
  by (auto simp add: accel_list_def updateAccelList_def Let_def)

lemma candidates_new:
  "candidates lib (new_HWAccelIterator plat va_type isEncoder dict) =
     read_tokens (open_stream va_type (accel_list plat va_type isEncoder dict))"
  by (simp add: candidates_read_tokens new_HWAccelIterator_def)

lemma read_tokens_broken: "read_tokens broken_stream = []"
  by (simp add: read_tokens_not_good broken_stream_def stream_good_def)

text \<open>
  Claim C1, as the code has it. For every preference other than \<open>None\<close>, the candidate
  list is the fragment the configuration resolves to: the override as it stands when the
  role's key is present, the built-in default of the platform otherwise. For \<open>Any\<close>, one
  comma, that is one trailing empty entry, is appended to a fragment that is not empty;
  an empty fragment is left empty (the test at line 518). The caller's loop sees the
  entries of the fragment, none when it is empty, and for \<open>Any\<close> exactly one empty entry
  after them: the iterator reads the empty list of \<open>Any\<close> as that one entry, and reads
  nothing from the empty list of a specific backend.
\<close>

theorem candidate_list_resolved:
  assumes "va_type \<noteq> VIDEO_ACCELERATION_NONE"
  shows "accel_list plat va_type isEncoder dict =
           (if va_type = VIDEO_ACCELERATION_ANY
               \<and> resolved_fragment plat va_type isEncoder dict \<noteq> []
            then resolved_fragment plat va_type isEncoder dict @ '',''
            else resolved_fragment plat va_type isEncoder dict)
         \<and> candidates lib (new_HWAccelIterator plat va_type isEncoder dict) =
           (if resolved_fragment plat va_type isEncoder dict = [] then []
            else split_on CHR '','' (resolved_fragment plat va_type isEncoder dict))
           @ (if va_type = VIDEO_ACCELERATION_ANY then [[]] else [])"
proof
  from assms show "accel_list plat va_type isEncoder dict =
           (if va_type = VIDEO_ACCELERATION_ANY
               \<and> resolved_fragment plat va_type isEncoder dict \<noteq> []
            then resolved_fragment plat va_type isEncoder dict @ '',''
            else resolved_fragment plat va_type isEncoder dict)"
    by (simp add: accel_list_fragment)
next
  let ?f = "resolved_fragment plat va_type isEncoder dict"
  show "candidates lib (new_HWAccelIterator plat va_type isEncoder dict) =
           (if ?f = [] then [] else split_on CHR '','' ?f)
           @ (if va_type = VIDEO_ACCELERATION_ANY then [[]] else [])"
  proof (cases "va_type = VIDEO_ACCELERATION_ANY")
    case True
    show ?thesis
    proof (cases "?f = []")
      case e: True
      with True show ?thesis
        by (simp add: candidates_new accel_list_fragment open_stream_def read_tokens_fresh)
    next
      case ne: False
      with True have "accel_list plat va_type isEncoder dict = ?f @ [CHR '','']"
        by (simp add: accel_list_fragment)
      with True ne show ?thesis
        by (simp add: candidates_new open_stream_def read_tokens_fresh split_on_snoc)
    qed
  next
    case False
    with assms show ?thesis
      by (simp add: candidates_new accel_list_fragment open_stream_def read_tokens_fresh
          read_tokens_broken)
  qed
qed

theorem candidate_list_resolved_witness:
  "VIDEO_ACCELERATION_ANY \<noteq> VIDEO_ACCELERATION_NONE
   \<and> resolved_fragment Posix VIDEO_ACCELERATION_ANY False None = ''vaapi.iHD''
   \<and> accel_list Posix VIDEO_ACCELERATION_ANY False None = ''vaapi.iHD,''
   \<and> candidates example_lib (new_HWAccelIterator Posix VIDEO_ACCELERATION_ANY False None)
       = [''vaapi.iHD'', []]"
proof -
  have n: "VIDEO_ACCELERATION_ANY \<noteq> VIDEO_ACCELERATION_NONE"
    by simp
  have f: "resolved_fragment Posix VIDEO_ACCELERATION_ANY False None = ''vaapi.iHD''"
    by (simp add: resolved_fragment_def dict_value_def builtin_default_def)
  from candidate_list_resolved[OF n, where plat = Posix and isEncoder = False and dict = None
      and lib = example_lib] n f
  show ?thesis
    by simp
qed

text \<open>
  Claim C1 as first stated appends the trailing empty entry for \<open>Any\<close> whatever the
  fragment. With the override \<open>hw_decoders_any\<close> present and empty, the list for \<open>Any\<close>
  is the empty override and nothing is appended to it, neither as a string nor as
  comma-separated entries.
\<close>

theorem any_empty_override_counterexample:
  "dict_value (Some [(''hw_decoders_any'', [])]) (override_key False VIDEO_ACCELERATION_ANY)
     = Some []
   \<and> resolved_fragment Posix VIDEO_ACCELERATION_ANY False (Some [(''hw_decoders_any'', [])]) = []
   \<and> accel_list Posix VIDEO_ACCELERATION_ANY False (Some [(''hw_decoders_any'', [])]) = []
   \<and> accel_list Posix VIDEO_ACCELERATION_ANY False (Some [(''hw_decoders_any'', [])])
       \<noteq> resolved_fragment Posix VIDEO_ACCELERATION_ANY False (Some [(''hw_decoders_any'', [])])
           @ '',''
   \<and> split_on CHR '','' (accel_list Posix VIDEO_ACCELERATION_ANY False
                            (Some [(''hw_decoders_any'', [])]))
       \<noteq> split_on CHR '','' (resolved_fragment Posix VIDEO_ACCELERATION_ANY False
                                (Some [(''hw_decoders_any'', [])])) @ [[]]"
proof -
  have k: "dict_value (Some [(''hw_decoders_any'', [])]) (override_key False VIDEO_ACCELERATION_ANY)
             = Some []"
    by (simp add: dict_value_def override_key_def)
  then have f: "resolved_fragment Posix VIDEO_ACCELERATION_ANY False
                  (Some [(''hw_decoders_any'', [])]) = []"
    by (simp add: resolved_fragment_def)
  have l: "accel_list Posix VIDEO_ACCELERATION_ANY False (Some [(''hw_decoders_any'', [])]) = []"
    using k
    by (simp add: accel_list_def updateAccelList_def getDecoderConfiguration_def
        override_key_def Let_def)
  from k f l show ?thesis
    by simp
qed

text \<open>
  Claim C10. For a specific backend (neither \<open>None\<close> nor \<open>Any\<close>) whose candidate list is
  empty, \<open>good()\<close> is false on the iterator as constructed, before any \<open>parse_next()\<close>,
  and the caller's loop sees no candidate.
\<close>

theorem empty_list_not_good:
  assumes "va_type \<noteq> VIDEO_ACCELERATION_NONE" and "va_type \<noteq> VIDEO_ACCELERATION_ANY"
    and "accel_list plat va_type isEncoder dict = []"
  shows "\<not> good (new_HWAccelIterator plat va_type isEncoder dict)
         \<and> candidates lib (new_HWAccelIterator plat va_type isEncoder dict) = []"
proof
  from assms show "\<not> good (new_HWAccelIterator plat va_type isEncoder dict)"
    by (simp add: good_def new_HWAccelIterator_def open_stream_def broken_stream_def
        stream_good_def)
next
  from assms show "candidates lib (new_HWAccelIterator plat va_type isEncoder dict) = []"
    by (simp add: candidates_new open_stream_def read_tokens_broken)
qed

theorem empty_list_not_good_witness:
  "VIDEO_ACCELERATION_D3D11 \<noteq> VIDEO_ACCELERATION_NONE
   \<and> VIDEO_ACCELERATION_D3D11 \<noteq> VIDEO_ACCELERATION_ANY
   \<and> accel_list Posix VIDEO_ACCELERATION_D3D11 False None = []
   \<and> \<not> good (new_HWAccelIterator Posix VIDEO_ACCELERATION_D3D11 False None)
   \<and> candidates example_lib (new_HWAccelIterator Posix VIDEO_ACCELERATION_D3D11 False None) = []"
proof -
  have a: "VIDEO_ACCELERATION_D3D11 \<noteq> VIDEO_ACCELERATION_NONE"
    and b: "VIDEO_ACCELERATION_D3D11 \<noteq> VIDEO_ACCELERATION_ANY"
    by simp_all
  have c: "accel_list Posix VIDEO_ACCELERATION_D3D11 False None = []"
    by (simp add: accel_list_def updateAccelList_def getDecoderConfiguration_def dict_value_def)
  from empty_list_not_good[OF a b c, where lib = example_lib] a b c show ?thesis
    by simp
qed

subsection \<open>Device validation\<close>

text \<open>
  Claim C2. Whatever name a device context goes by (\<open>device_name_of\<close> is any naming of
  contexts), validation with a filter that is not empty rejects the context when that name
  does not contain the filter, also when the context passes every other check.
\<close>

theorem check_device_name_filter:
  assumes "device_subname \<noteq> []"
    and "find_str (device_name_of hw_device_ctx) device_subname = None"
  shows "hw_check_device lib (Some hw_device_ctx) hw_type device_subname = False"
  using assms(1) by (simp add: hw_check_device_def Let_def)

theorem check_device_name_filter_witness:
  "''CustomGPU'' \<noteq> []
   \<and> find_str ''Intel iHD driver'' ''CustomGPU'' = None
   \<and> hw_check_device example_lib (Some (example_device AV_HWDEVICE_TYPE_VAAPI))
        AV_HWDEVICE_TYPE_VAAPI ''CustomGPU'' = False
   \<and> hw_check_device example_lib (Some (example_device AV_HWDEVICE_TYPE_VAAPI))
        AV_HWDEVICE_TYPE_VAAPI [] = True"
proof -
  have a: "''CustomGPU'' \<noteq> []"
    by simp
  have b: "find_str ''Intel iHD driver'' ''CustomGPU'' = None"
    by simp
  have c: "hw_check_device example_lib (Some (example_device AV_HWDEVICE_TYPE_VAAPI))
        AV_HWDEVICE_TYPE_VAAPI [] = True"
    by (simp add: hw_check_device_def example_device_def)
  from check_device_name_filter[where device_subname = "''CustomGPU''"
      and device_name_of = "\<lambda>ctx. ''Intel iHD driver''"
      and hw_device_ctx = "example_device AV_HWDEVICE_TYPE_VAAPI"
      and lib = example_lib and hw_type = AV_HWDEVICE_TYPE_VAAPI] a b c
  show ?thesis
    by simp
qed

text \<open>
  Claim C3. With a filter that is not empty, \<open>hw_check_device\<close> returns false for every
  context, \<open>NULL\<close> included, and every requested type: the name it searches is the local
  \<open>device_name\<close>, which is empty.
\<close>

theorem check_device_filter_always_rejects:
  assumes "device_subname \<noteq> []"
  shows "hw_check_device lib ctx hw_type device_subname = False"
  using assms by (simp add: hw_check_device_def Let_def split: option.splits)

theorem check_device_filter_always_rejects_witness:
  "''iHD'' \<noteq> []
   \<and> hw_check_device example_lib (Some (example_device AV_HWDEVICE_TYPE_VAAPI))
        AV_HWDEVICE_TYPE_VAAPI ''iHD'' = False"
proof -
  have a: "''iHD'' \<noteq> []"
    by simp
  from check_device_filter_always_rejects[where device_subname = "''iHD''"
      and lib = example_lib and ctx = "Some (example_device AV_HWDEVICE_TYPE_VAAPI)"
      and hw_type = AV_HWDEVICE_TYPE_VAAPI] a
  show ?thesis
    by simp
qed

subsection \<open>Codec selector\<close>

text \<open>
  Claim C7. For a backend the library has a name for, \<open>hw_check_codec\<close> vetoes the codec
  (returns false) exactly when some comma-separated entry of the disabled list is the codec
  name, the dotted backend name, the codec name followed by the dotted backend name, or
  \<open>hw\<close>; so a list with the entry \<open>hw\<close> vetoes every codec for every such backend.
\<close>

theorem check_codec_tokens:
  assumes "av_hwdevice_get_type_name lib hw_type = Some type_name"
  shows "hw_check_codec lib codec hw_type (Some disabled) =
           Inr (\<not> (\<exists>tok \<in> set (split_on CHR '','' disabled).
                     tok = codec_name codec \<or> tok = ''.'' @ type_name
                     \<or> tok = codec_name codec @ ''.'' @ type_name \<or> tok = ''hw''))
         \<and> (''hw'' \<in> set (split_on CHR '','' disabled)
              \<longrightarrow> hw_check_codec lib codec hw_type (Some disabled) = Inr False)"
  using assms
  by (auto simp add: hw_check_codec_def disabled_scan_tokens read_tokens_fresh Let_def)

theorem check_codec_tokens_witness:
  "av_hwdevice_get_type_name example_lib AV_HWDEVICE_TYPE_VAAPI = Some ''vaapi''
   \<and> hw_check_codec example_lib h264 AV_HWDEVICE_TYPE_VAAPI (Some ''av1.vaapi,h264.vaapi'') = Inr False
   \<and> hw_check_codec example_lib h264 AV_HWDEVICE_TYPE_VAAPI (Some ''av1.vaapi,vp8_qsv'') = Inr True"
proof -
  have a: "av_hwdevice_get_type_name example_lib AV_HWDEVICE_TYPE_VAAPI = Some ''vaapi''"
    by (simp add: example_lib_def hw_type_names_def)
  from check_codec_tokens[OF a, where codec = h264 and disabled = "''av1.vaapi,h264.vaapi''"]
    check_codec_tokens[OF a, where codec = h264 and disabled = "''av1.vaapi,vp8_qsv''"] a
  show ?thesis
    by (simp add: h264_def)
qed

lemma find_codec_loop_none:
  "find_codec_loop lib cs cid AV_HWDEVICE_TYPE_NONE check_category disabled_codecs hw_pix_fmt =
     Inr (find (\<lambda>c. check_category c \<noteq> 0 \<and> codec_id c = cid
                  \<and> codec_capabilities c AND AV_CODEC_CAP_EXPERIMENTAL = 0) cs,
          hw_pix_fmt)"
  by (induction cs) simp_all

text \<open>
  Claim C8. With the backend \<open>AV_HWDEVICE_TYPE_NONE\<close>, \<open>hw_find_codec\<close> returns the
  first codec of the enumeration that passes the category check, has the requested
  identifier and is not experimental; it leaves \<open>*hw_pix_fmt\<close> alone, and the disabled
  list (even a \<open>NULL\<close> one) plays no part.
\<close>

theorem find_codec_software:
  "hw_find_codec lib cid AV_HWDEVICE_TYPE_NONE check_category disabled_codecs hw_pix_fmt =
     Inr (find (\<lambda>c. check_category c \<noteq> 0 \<and> codec_id c = cid
                  \<and> codec_capabilities c AND AV_CODEC_CAP_EXPERIMENTAL = 0)
            (av_codec_iterate lib),
          hw_pix_fmt)"
  by (simp add: hw_find_codec_def find_codec_loop_none)

theorem find_codec_software_witness:
  "hw_find_codec example_lib 27 AV_HWDEVICE_TYPE_NONE (\<lambda>c. 1) (Some ''hw,h264'') AV_PIX_FMT_NONE
     = Inr (Some h264, AV_PIX_FMT_NONE)"
  using find_codec_software[where lib = example_lib and cid = 27 and check_category = "\<lambda>c. 1"
      and disabled_codecs = "Some ''hw,h264''" and hw_pix_fmt = AV_PIX_FMT_NONE]
  by (simp add: example_lib_def h264_def h264_experimental_def AV_CODEC_CAP_EXPERIMENTAL_def)

subsection \<open>The store\<close>

lemma put_same: "lookup s r = Some b \<Longrightarrow> put r (Some b) s = s"
proof -
  assume "lookup s r = Some b"
  then have "(cells s)[r := Some b] = cells s"
    by (metis list_update_id lookup_def option.distinct(1))
  then show ?thesis
    by (simp add: put_def)
qed

lemma lookup_put:
  "lookup (put r x s) r' = (if r' = r \<and> r < length (cells s) then x else lookup s r')"
  by (simp add: lookup_def put_def)

lemma length_cells_put: "length (cells (put r x s)) = length (cells s)"
  by (simp add: put_def)

lemma put_put: "put r x (put r y s) = put r x s"
  by (simp add: put_def)

lemma faults_put: "faults (put r x s) = faults s"
  by (simp add: put_def)

lemma lookup_live: "lookup s r = Some b \<Longrightarrow> r < length (cells s)"
  by (simp add: lookup_def split: if_splits)

lemma release_shared:
  assumes "lookup s r = Some b" and "1 < refcount b"
  shows "release (r # rs) s = release rs (put r (Some (b\<lparr>refcount := refcount b - 1\<rparr>)) s)"
  using assms by simp

lemma release_last:
  assumes "lookup s r = Some b" and "refcount b \<le> 1"
  shows "release (r # rs) s = release (owned_refs b @ rs) (put r None s)"
  using assms by simp

lemma release_replicate:
  assumes "lookup s c = Some b" and "n < refcount b"
  shows "release (replicate n c) s = put c (Some (b\<lparr>refcount := refcount b - n\<rparr>)) s"
  using assms
proof (induction n arbitrary: s b)
  case 0
  then show ?case
    by (simp add: put_same)
next
  case (Suc n)
  let ?b = "b\<lparr>refcount := refcount b - 1\<rparr>"
  from Suc.prems have live: "c < length (cells s)"
    by (simp add: lookup_live)
  with Suc.prems have l: "lookup (put c (Some ?b) s) c = Some ?b"
    by (simp add: lookup_put)
  from Suc.prems have "n < refcount ?b"
    by simp
  from Suc.IH[OF l this] Suc.prems show ?case
    by (simp add: put_put)
qed

lemma owned_refs_refcount: "owned_refs (b\<lparr>refcount := n\<rparr>) = owned_refs b"
  by (simp add: owned_refs_def)

subsection \<open>Device context builder\<close>

lemma new_buffer_plain:
  "new_buffer p [] s =
     (length (cells s),
      s\<lparr>cells := cells s @ [Some \<lparr>refcount = 1, data = p, internal_refs = []\<rparr>]\<rparr>)"
  by (simp add: new_buffer_def)

lemma device_at_new_plain:
  "device_at (s\<lparr>cells := cells s @ [Some \<lparr>refcount = n, data = Device ctx, internal_refs = rs\<rparr>]\<rparr>)
     (length (cells s)) = Some ctx"
  by (simp add: device_at_def lookup_def)

lemma check_device_vaapi_for_qsv:
  "dev_type ctx = AV_HWDEVICE_TYPE_VAAPI \<Longrightarrow>
   hw_check_device lib (Some ctx) AV_HWDEVICE_TYPE_QSV device_subname = False"
  by (simp add: hw_check_device_def Let_def)

text \<open>
  Claim C4. Off Windows, \<open>hw_create_device\<close> for the QSV type returns \<open>NULL\<close> for every
  device index, filter and store, with a library that opens contexts of the type asked for:
  VAAPI is the only child type tried, and \<open>hw_check_device\<close> rejects a VAAPI context
  when the requested type is QSV, so line 280 is never reached.
\<close>

theorem qsv_on_posix_no_context:
  assumes "creates_requested_type lib"
  shows "fst (hw_create_device lib Posix AV_HWDEVICE_TYPE_QSV hw_device device_subname use_opencl s)
           = None"
proof (cases "av_hwdevice_ctx_create lib AV_HWDEVICE_TYPE_VAAPI
                (device_selector AV_HWDEVICE_TYPE_VAAPI hw_device)")
  case (Pair err made)
  show ?thesis
  proof (cases made)
    case None
    with Pair show ?thesis
      by (simp add: hw_create_device_def call_hwdevice_ctx_create_def)
  next
    case (Some ctx)
    with Pair assms have "dev_type ctx = AV_HWDEVICE_TYPE_VAAPI"
      by (auto simp: creates_requested_type_def)
    with Pair Some show ?thesis
      by (simp add: hw_create_device_def call_hwdevice_ctx_create_def new_buffer_plain
          device_at_new_plain check_device_vaapi_for_qsv)
  qed
qed

lemma example_creates_requested_type: "creates_requested_type example_lib"
  by (auto simp: creates_requested_type_def example_lib_def example_device_def split: if_splits)

theorem qsv_on_posix_no_context_witness:
  "creates_requested_type example_lib
   \<and> fst (hw_create_device example_lib Posix AV_HWDEVICE_TYPE_QSV 0 [] False empty_store) = None"
  using qsv_on_posix_no_context[OF example_creates_requested_type, where hw_device = 0
      and device_subname = "[]" and use_opencl = False and s = empty_store]
    example_creates_requested_type
  by simp

text \<open>The store a successful derivation leaves.\<close>

lemma derived_context_store:
  assumes b: "lookup s c = Some b" and dev: "data b = Device child"
    and ans: "av_hwdevice_ctx_create_derived lib hw_type child = (err, Some dctx)"
    and err: "0 \<le> err" and ok: "av_buffer_ref_ok lib c"
  shows "hw_create_derived_context lib hw_type c s =
           (Some (length (cells s)),
            \<lparr>cells = (cells s)[c := Some (b\<lparr>refcount := refcount b + 2\<rparr>)]
                @ [Some \<lparr>refcount = 1,
                         data = Device (dctx\<lparr>dev_user_opaque := Some c,
                                              dev_free := Some FreeChildContext\<rparr>),
                         internal_refs = [c]\<rparr>],
             faults = faults s\<rparr>)"
proof -
  from b have live: "c < length (cells s)" and at: "cells s ! c = Some b"
    by (auto simp: lookup_def split: if_splits)
  from b dev have d: "device_at s c = Some child"
    by (simp add: device_at_def)
  show ?thesis
    using live at d ans err b ok
    by (simp add: hw_create_derived_context_def call_hwdevice_ctx_create_derived_def
        new_buffer_def av_buffer_ref_def take_ref_def put_def lookup_def device_at_def update_data_def
        nth_append list_update_append Let_def)
qed

lemma derived_context_answer:
  assumes b: "lookup s c = Some b" and dev: "data b = Device child"
    and r: "hw_create_derived_context lib hw_type c s = (Some d, s')"
  shows "\<exists>err dctx. av_hwdevice_ctx_create_derived lib hw_type child = (err, Some dctx) \<and> 0 \<le> err"
proof -
  from b dev have d: "device_at s c = Some child"
    by (simp add: device_at_def)
  obtain err made where a: "av_hwdevice_ctx_create_derived lib hw_type child = (err, made)"
    by (metis surj_pair)
  with r d show ?thesis
    by (cases made)
       (auto simp: hw_create_derived_context_def call_hwdevice_ctx_create_derived_def Let_def
          split: prod.splits if_splits)
qed

text \<open>
  Let \<open>hw_create_derived_context\<close> return a derived context \<open>d\<close> for a live child
  \<open>c\<close>, \<open>av_buffer_ref\<close> having found the memory for its reference. Then
  \<open>user_opaque\<close> of \<open>d\<close> is a reference to \<open>c\<close> and its \<open>free\<close> is
  \<open>FreeChildContext::free\<close>; the child has two references more than before (the one
  in \<open>user_opaque\<close> and the library's own to the source device), so it stays alive when
  every earlier reference to it is released; releasing \<open>d\<close> gives both back, each once:
  the store is what it was, with the cell of \<open>d\<close> freed and no fault; and once the
  earlier references are gone, releasing \<open>d\<close> frees the child too.
\<close>

theorem derived_context_keeps_child:
  assumes b: "lookup s c = Some b" and dev: "data b = Device child" and rc: "0 < refcount b"
    and ok: "av_buffer_ref_ok lib c"
    and r: "hw_create_derived_context lib hw_type c s = (Some d, s')"
  shows "(\<exists>ctx. device_at s' d = Some ctx \<and> dev_user_opaque ctx = Some c
                \<and> dev_free ctx = Some FreeChildContext)
         \<and> lookup s' c = Some (b\<lparr>refcount := refcount b + 2\<rparr>)
         \<and> faults s' = faults s
         \<and> lookup (release (replicate (refcount b) c) s') c = Some (b\<lparr>refcount := 2\<rparr>)
         \<and> av_buffer_unref (Some d) s' = s\<lparr>cells := cells s @ [None]\<rparr>
         \<and> (owned_refs b = [] \<longrightarrow>
              av_buffer_unref (Some d) (release (replicate (refcount b) c) s')
                = s\<lparr>cells := (cells s)[c := None] @ [None]\<rparr>)"
proof -
  from derived_context_answer[OF b dev r] obtain err dctx
    where ans: "av_hwdevice_ctx_create_derived lib hw_type child = (err, Some dctx)"
      and err: "0 \<le> err"
    by blast
  let ?ctx = "dctx\<lparr>dev_user_opaque := Some c, dev_free := Some FreeChildContext\<rparr>"
  let ?parent = "\<lparr>refcount = 1, data = Device ?ctx, internal_refs = [c]\<rparr>"
  let ?b2 = "b\<lparr>refcount := refcount b + 2\<rparr>"
  from b have live: "c < length (cells s)" and at: "cells s ! c = Some b"
    by (auto simp: lookup_def split: if_splits)
  from derived_context_store[OF b dev ans err ok] r
  have d: "d = length (cells s)"
    and s': "s' = \<lparr>cells = (cells s)[c := Some ?b2] @ [Some ?parent], faults = faults s\<rparr>"
    by simp_all
  have ls': "length (cells s') = Suc (length (cells s))"
    by (simp add: s')
  have ld: "lookup s' d = Some ?parent"
    by (simp add: s' d lookup_def nth_append)
  have lc: "lookup s' c = Some ?b2"
    using live by (simp add: s' lookup_def nth_append)
  have owned: "owned_refs ?parent = [c, c]"
    by (simp add: owned_refs_def)
  have 1: "\<exists>ctx. device_at s' d = Some ctx \<and> dev_user_opaque ctx = Some c
                \<and> dev_free ctx = Some FreeChildContext"
    using ld by (simp add: device_at_def)
  have 3: "faults s' = faults s"
    by (simp add: s')
  have rel: "release (replicate (refcount b) c) s' = put c (Some (b\<lparr>refcount := 2\<rparr>)) s'"
    using release_replicate[OF lc, of "refcount b"] by simp
  have 4: "lookup (release (replicate (refcount b) c) s') c = Some (b\<lparr>refcount := 2\<rparr>)"
    unfolding rel using live by (simp add: lookup_put ls')
  have 5: "av_buffer_unref (Some d) s' = s\<lparr>cells := cells s @ [None]\<rparr>"
  proof -
    let ?t0 = "put d None s'"
    have t0c: "lookup ?t0 c = Some ?b2"
      using live lc by (simp add: lookup_put d)
    let ?b1 = "b\<lparr>refcount := refcount b + 1\<rparr>"
    let ?t1 = "put c (Some ?b1) ?t0"
    have t1c: "lookup ?t1 c = Some ?b1"
      using live by (simp add: lookup_put length_cells_put ls')
    have "release [d] s' = release [c, c] ?t0"
      using release_last[OF ld, of "[]"] owned by simp
    also have "\<dots> = release [c] ?t1"
      using release_shared[OF t0c, of "[c]"] by simp
    also have "\<dots> = release [] (put c (Some b) ?t1)"
      using release_shared[OF t1c, of "[]"] rc by simp
    also have "\<dots> = s\<lparr>cells := cells s @ [None]\<rparr>"
    proof -
      from at have "(cells s)[c := Some b] = cells s"
        by (metis list_update_id)
      with live show ?thesis
        by (simp add: put_def s' d list_update_append)
    qed
    finally show ?thesis
      by (simp add: av_buffer_unref_def)
  qed
  have 6: "av_buffer_unref (Some d) (release (replicate (refcount b) c) s')
             = s\<lparr>cells := (cells s)[c := None] @ [None]\<rparr>" if nothing: "owned_refs b = []"
  proof -
    let ?u = "put c (Some (b\<lparr>refcount := 2\<rparr>)) s'"
    have ud: "lookup ?u d = Some ?parent"
      using live ld by (simp add: lookup_put d)
    let ?t0 = "put d None ?u"
    have t0c: "lookup ?t0 c = Some (b\<lparr>refcount := 2\<rparr>)"
      using live by (simp add: lookup_put length_cells_put ls' d)
    let ?t1 = "put c (Some (b\<lparr>refcount := 1\<rparr>)) ?t0"
    have t1c: "lookup ?t1 c = Some (b\<lparr>refcount := 1\<rparr>)"
      using live by (simp add: lookup_put length_cells_put ls')
    have "release [d] ?u = release [c, c] ?t0"
      using release_last[OF ud, of "[]"] owned by simp
    also have "\<dots> = release [c] ?t1"
      using release_shared[OF t0c, of "[c]"] by simp
    also have "\<dots> = release (owned_refs (b\<lparr>refcount := 1\<rparr>) @ []) (put c None ?t1)"
      by (rule release_last[OF t1c]) simp
    also have "\<dots> = release [] (put c None ?t1)"
      using that by (simp add: owned_refs_refcount)
    also have "\<dots> = s\<lparr>cells := (cells s)[c := None] @ [None]\<rparr>"
      using live by (simp add: put_def s' d list_update_append)
    finally show ?thesis
      by (simp add: av_buffer_unref_def rel)
  qed
  from 1 lc 3 4 5 6 show ?thesis
    by blast
qed

lemma example_derived:
  "hw_create_derived_context example_lib AV_HWDEVICE_TYPE_QSV 0 d3d11_store = (Some 1, qsv_store)"
  by (simp add: hw_create_derived_context_def call_hwdevice_ctx_create_derived_def
        new_buffer_def av_buffer_ref_def take_ref_def put_def lookup_def device_at_def update_data_def
        d3d11_store_def qsv_store_def example_lib_def example_device_def Let_def)

theorem derived_context_keeps_child_witness:
  "lookup d3d11_store 0
     = Some \<lparr>refcount = 1, data = Device (example_device AV_HWDEVICE_TYPE_D3D11VA),
             internal_refs = []\<rparr>
   \<and> hw_create_derived_context example_lib AV_HWDEVICE_TYPE_QSV 0 d3d11_store = (Some 1, qsv_store)
   \<and> device_at qsv_store 1
       = Some ((example_device AV_HWDEVICE_TYPE_QSV)
                \<lparr>dev_user_opaque := Some 0, dev_free := Some FreeChildContext\<rparr>)
   \<and> av_buffer_unref (Some 1) qsv_store = \<lparr>cells = cells d3d11_store @ [None], faults = 0\<rparr>
   \<and> av_buffer_unref (Some 1) (release [0] qsv_store) = \<lparr>cells = [None, None], faults = 0\<rparr>"
proof -
  let ?b = "\<lparr>refcount = 1, data = Device (example_device AV_HWDEVICE_TYPE_D3D11VA),
             internal_refs = []\<rparr>"
  have b: "lookup d3d11_store 0 = Some ?b"
    by (simp add: lookup_def d3d11_store_def)
  have dev: "data ?b = Device (example_device AV_HWDEVICE_TYPE_D3D11VA)"
    and rc: "0 < refcount ?b" and own: "owned_refs ?b = []"
    by (simp_all add: owned_refs_def example_device_def)
  have at: "device_at qsv_store 1
       = Some ((example_device AV_HWDEVICE_TYPE_QSV)
                \<lparr>dev_user_opaque := Some 0, dev_free := Some FreeChildContext\<rparr>)"
    by (simp add: device_at_def lookup_def qsv_store_def)
  have once: "replicate (refcount ?b) (0::nat) = [0]"
    by simp
  have e1: "d3d11_store\<lparr>cells := cells d3d11_store @ [None]\<rparr>
              = \<lparr>cells = cells d3d11_store @ [None], faults = 0\<rparr>"
    and e2: "d3d11_store\<lparr>cells := (cells d3d11_store)[0 := None] @ [None]\<rparr>
              = \<lparr>cells = [None, None], faults = 0\<rparr>"
    by (simp_all add: d3d11_store_def)
  have ok: "av_buffer_ref_ok example_lib 0"
    by (simp add: example_lib_def)
  note inst = derived_context_keeps_child[OF b dev rc ok example_derived, unfolded once e1 e2]
  from inst own have
    "av_buffer_unref (Some 1) qsv_store = \<lparr>cells = cells d3d11_store @ [None], faults = 0\<rparr>"
    and "av_buffer_unref (Some 1) (release [0] qsv_store) = \<lparr>cells = [None, None], faults = 0\<rparr>"
    by blast+
  with b example_derived at show ?thesis
    by blast
qed

text \<open>
  Claim C5. Line 233 stores what \<open>av_buffer_ref\<close> returns in \<open>user_opaque\<close> without
  looking at it. When the derivation of a QSV context from the D3D11VA device succeeds and
  \<open>av_buffer_ref\<close> returns \<open>NULL\<close>, \<open>hw_create_derived_context\<close> returns the
  derived context all the same: its \<open>free\<close> is \<open>FreeChildContext::free\<close> and its
  \<open>user_opaque\<close> is \<open>NULL\<close>, so no reference to the child is stored in it. The
  child keeps the library's own reference only; releasing the derived context gives that
  one back and frees nothing twice. A frame pool asked of this context is allocated on
  the QSV device itself, where after a derivation with the child stored it is allocated
  on the child and derived.
\<close>

theorem derived_context_null_child:
  "hw_create_derived_context no_reference_lib AV_HWDEVICE_TYPE_QSV 0 d3d11_store
     = (Some 1, childless_qsv_store)
   \<and> device_at childless_qsv_store 1
       = Some ((example_device AV_HWDEVICE_TYPE_QSV)
                \<lparr>dev_user_opaque := None, dev_free := Some FreeChildContext\<rparr>)
   \<and> av_buffer_unref (Some 1) childless_qsv_store
       = \<lparr>cells = cells d3d11_store @ [None], faults = 0\<rparr>
   \<and> frames_child_ctx childless_qsv_store 1
         ((example_device AV_HWDEVICE_TYPE_QSV)
            \<lparr>dev_user_opaque := None, dev_free := Some FreeChildContext\<rparr>) = Some 1
   \<and> frames_child_ctx qsv_store 1
         ((example_device AV_HWDEVICE_TYPE_QSV)
            \<lparr>dev_user_opaque := Some 0, dev_free := Some FreeChildContext\<rparr>) = Some 0"
proof -
  have run: "hw_create_derived_context no_reference_lib AV_HWDEVICE_TYPE_QSV 0 d3d11_store
     = (Some 1, childless_qsv_store)"
    by (simp add: hw_create_derived_context_def call_hwdevice_ctx_create_derived_def
        new_buffer_def av_buffer_ref_def take_ref_def put_def lookup_def device_at_def
        update_data_def d3d11_store_def childless_qsv_store_def no_reference_lib_def
        example_lib_def example_device_def Let_def)
  have at: "device_at childless_qsv_store 1
       = Some ((example_device AV_HWDEVICE_TYPE_QSV)
                \<lparr>dev_user_opaque := None, dev_free := Some FreeChildContext\<rparr>)"
    by (simp add: device_at_def lookup_def childless_qsv_store_def)
  have rel: "av_buffer_unref (Some 1) childless_qsv_store
       = \<lparr>cells = cells d3d11_store @ [None], faults = 0\<rparr>"
    by (simp add: av_buffer_unref_def owned_refs_def put_def lookup_def
        childless_qsv_store_def d3d11_store_def example_device_def)
  have direct: "frames_child_ctx childless_qsv_store 1
         ((example_device AV_HWDEVICE_TYPE_QSV)
            \<lparr>dev_user_opaque := None, dev_free := Some FreeChildContext\<rparr>) = Some 1"
    by (simp add: frames_child_ctx_def example_device_def)
  have child: "frames_child_ctx qsv_store 1
         ((example_device AV_HWDEVICE_TYPE_QSV)
            \<lparr>dev_user_opaque := Some 0, dev_free := Some FreeChildContext\<rparr>) = Some 0"
    by (simp add: frames_child_ctx_def device_at_def lookup_def qsv_store_def example_device_def)
  from run at rel direct child show ?thesis
    by simp
qed

subsection \<open>Frame pool builder\<close>

lemma fill_frames_fields:
  "frames_width (fill_frames_ctx lib f0 direct child width height hw_format) = width
   \<and> frames_height (fill_frames_ctx lib f0 direct child width height hw_format) = height
   \<and> frames_sw_format (fill_frames_ctx lib f0 direct child width height hw_format)
       = (if frames_sw_format f0 = AV_PIX_FMT_NONE then AV_PIX_FMT_NV12 else frames_sw_format f0)
   \<and> frames_initial_pool_size (fill_frames_ctx lib f0 direct child width height hw_format)
       = (if frames_initial_pool_size f0 = 0 then 32 else frames_initial_pool_size f0)"
  by (simp add: fill_frames_ctx_def Let_def HW_DEFAULT_SW_FORMAT_def HW_DEFAULT_POOL_SIZE_def
      split: option.splits)

lemma lookup_fault: "lookup (fault s) r = lookup s r"
  by (simp add: lookup_def fault_def)

lemma cells_fault: "cells (fault s) = cells s"
  by (simp add: fault_def)

lemma device_at_fault: "device_at (fault s) r = device_at s r"
  by (simp add: device_at_def lookup_fault)

lemma lookup_take_ref:
  "lookup (snd (take_ref r s)) r' =
     (if r' = r then map_option (\<lambda>b. b\<lparr>refcount := Suc (refcount b)\<rparr>) (lookup s r)
      else lookup s r')"
proof (cases "lookup s r")
  case None
  then show ?thesis
    by (auto simp: take_ref_def lookup_fault)
next
  case (Some b)
  with lookup_live[OF Some] show ?thesis
    by (simp add: take_ref_def lookup_put)
qed

lemma length_take_ref: "length (cells (snd (take_ref r s))) = length (cells s)"
  by (simp add: take_ref_def put_def fault_def split: option.splits)

lemma new_buffer_one:
  "new_buffer p [r] s =
     (length (cells s),
      (snd (take_ref r s))
        \<lparr>cells := cells (snd (take_ref r s))
                   @ [Some \<lparr>refcount = 1, data = p, internal_refs = [r]\<rparr>]\<rparr>)"
  by (simp add: new_buffer_def Let_def length_take_ref)

lemma lookup_append_cell:
  "lookup (s\<lparr>cells := cells s @ [x]\<rparr>) r =
     (if r = length (cells s) then x else lookup s r)"
  by (simp add: lookup_def nth_append)

lemma frames_at_put:
  "frames_at (put r (Some b) s) r' =
     (if r' = r \<and> r < length (cells s)
      then (case data b of Frames f \<Rightarrow> Some f | Device d \<Rightarrow> None) else frames_at s r')"
  by (simp add: frames_at_def lookup_put)

text \<open>What a successful capability query leaves.\<close>

lemma frames_query_result:
  assumes "frames_query lib codec_ctx child_ctx hw_format s = (Some fr, s2)"
  shows "fr = length (cells s) \<and> length (cells s2) = Suc (length (cells s))
         \<and> (\<exists>f0. lookup s2 fr = Some \<lparr>refcount = 1, data = Frames f0, internal_refs = [child_ctx]\<rparr>)
         \<and> (\<forall>r. r \<noteq> fr \<longrightarrow> map_option data (lookup s2 r) = map_option data (lookup s r))"
  using assms
  by (auto simp: frames_query_def call_get_hw_frames_parameters_def call_hwframe_ctx_alloc_def
      new_buffer_one lookup_append_cell length_take_ref lookup_take_ref Let_def
      option.map_comp comp_def cells_fault device_at_fault lookup_fault
      split: option.splits prod.splits if_splits)

lemma new_buffer_two:
  "new_buffer p [a, b] s =
     (length (cells s),
      (snd (take_ref b (snd (take_ref a s))))
        \<lparr>cells := cells (snd (take_ref b (snd (take_ref a s))))
                   @ [Some \<lparr>refcount = 1, data = p, internal_refs = [a, b]\<rparr>]\<rparr>)"
  by (simp add: new_buffer_def Let_def length_take_ref)

lemma update_data_live:
  "lookup s r = Some b \<Longrightarrow> update_data r p s = put r (Some (b\<lparr>data := p\<rparr>)) s"
  by (simp add: update_data_def)

lemma device_at_data:
  "map_option data (lookup s2 r) = map_option data (lookup s r) \<Longrightarrow> device_at s2 r = device_at s r"
  by (cases "lookup s2 r"; cases "lookup s r") (auto simp: device_at_def)

text \<open>The derived branch of \<open>hw_create_frames\<close> (lines 354-368), from the store \<open>s3\<close>
  that holds the filled frame context at \<open>fr\<close>.\<close>

lemma derived_frames_store:
  assumes fr: "lookup s3 fr = Some \<lparr>refcount = 1, data = Frames filled, internal_refs = refs\<rparr>"
    and dev: "device_at s3 dev = Some device_ctx"
    and c: "call_hwframe_ctx_create_derived lib hw_format dev fr flags s3 = (res, Some d, s4)"
  shows "frames_at (av_buffer_unref (Some fr) s4) d \<noteq> None
         \<and> (\<forall>x. frames_at (update_data d x (av_buffer_unref (Some fr) s4)) fr = Some filled)
         \<and> (\<forall>f. frames_at (update_data d (Frames f) (av_buffer_unref (Some fr) s4)) d = Some f)"
proof -
  from fr have ffr: "frames_at s3 fr = Some filled"
    by (simp add: frames_at_def)
  from dev have "lookup s3 dev \<noteq> None"
    by (auto simp: device_at_def split: option.splits)
  then obtain db where db: "lookup s3 dev = Some db"
    by blast
  from dev ffr have ne: "dev \<noteq> fr"
    by (auto simp: device_at_def frames_at_def split: option.splits payload.splits)
  from c dev ffr obtain derived0 where
    ans: "av_hwframe_ctx_create_derived lib hw_format device_ctx filled flags = (res, Some derived0)"
    and nb: "new_buffer (Frames derived0) [dev, fr] s3 = (d, s4)"
    by (auto simp: call_hwframe_ctx_create_derived_def split: prod.splits option.splits)
  let ?a = "snd (take_ref fr (snd (take_ref dev s3)))"
  let ?fb = "\<lparr>refcount = 2, data = Frames filled, internal_refs = refs\<rparr>"
  from nb have d: "d = length (cells s3)"
    and s4: "s4 = ?a\<lparr>cells := cells ?a @ [Some \<lparr>refcount = 1, data = Frames derived0,
                                                 internal_refs = [dev, fr]\<rparr>]\<rparr>"
    by (simp_all add: new_buffer_two)
  have la: "length (cells ?a) = length (cells s3)"
    by (simp add: length_take_ref)
  from lookup_live[OF fr] have frd: "fr < length (cells s3)" .
  with d have frned: "fr \<noteq> d"
    by simp
  have afr: "lookup ?a fr = Some ?fb"
    using fr ne by (simp add: lookup_take_ref)
  have l4fr: "lookup s4 fr = Some ?fb"
    using afr frd by (simp add: s4 lookup_append_cell la)
  have l4d: "lookup s4 d = Some \<lparr>refcount = 1, data = Frames derived0, internal_refs = [dev, fr]\<rparr>"
    by (simp add: s4 lookup_append_cell la d)
  have len4: "length (cells s4) = Suc (length (cells s3))"
    by (simp add: s4 la)
  define s5 where
    "s5 = put fr (Some \<lparr>refcount = 1, data = Frames filled, internal_refs = refs\<rparr>) s4"
  have s5: "av_buffer_unref (Some fr) s4 = s5"
    using release_shared[OF l4fr, of "[]"] by (simp add: av_buffer_unref_def s5_def)
  have l5d: "lookup s5 d = Some \<lparr>refcount = 1, data = Frames derived0, internal_refs = [dev, fr]\<rparr>"
    using frned l4d by (simp add: lookup_put s5_def)
  have l5fr: "lookup s5 fr = Some \<lparr>refcount = 1, data = Frames filled, internal_refs = refs\<rparr>"
    using frd by (simp add: lookup_put len4 s5_def)
  have 1: "frames_at s5 d \<noteq> None"
    using l5d by (simp add: frames_at_def)
  have u: "update_data d x s5
             = put d (Some \<lparr>refcount = 1, data = x, internal_refs = [dev, fr]\<rparr>) s5" for x
    by (simp add: update_data_live[OF l5d])
  have 2: "frames_at (update_data d x s5) fr = Some filled" for x
    unfolding u using l5fr frned by (simp add: frames_at_def lookup_put)
  have 3: "frames_at (update_data d (Frames f) s5) d = Some f" for f
    unfolding u using lookup_live[OF l5d] by (simp add: frames_at_def lookup_put)
  from 1 2 3 show ?thesis
    unfolding s5 by blast
qed

text \<open>
  Claim C6. Let \<open>hw_create_frames\<close> return a pool. The frame context it filled at lines
  326-344 (the returned pool itself when the frames are allocated on the device, else the
  pool that the returned, derived pool refers back to through \<open>user_opaque\<close>) has the
  width and height requested, whatever the capability query had put there; its
  \<open>sw_format\<close> is that of the query unless that was \<open>AV_PIX_FMT_NONE\<close>, and then
  \<open>AV_PIX_FMT_NV12\<close>; its \<open>initial_pool_size\<close> is that of the query unless that was 0,
  and then 32.
\<close>

theorem frame_pool_defaults:
  assumes r: "hw_create_frames lib codec_ctx hw_device_ctx width height hw_format s = (Some pool, s')"
  shows "\<exists>device_ctx child_ctx fr s2 frames0 frames_ctx.
           device_at s hw_device_ctx = Some device_ctx
         \<and> frames_child_ctx s hw_device_ctx device_ctx = Some child_ctx
         \<and> frames_query lib codec_ctx child_ctx hw_format s = (Some fr, s2)
         \<and> frames_at s2 fr = Some frames0
         \<and> frames_at s' fr = Some frames_ctx
         \<and> (if child_ctx = hw_device_ctx then pool = fr
             else (\<exists>derived. frames_at s' pool = Some derived
                             \<and> frames_user_opaque derived = Some fr))
         \<and> frames_width frames_ctx = width
         \<and> frames_height frames_ctx = height
         \<and> frames_sw_format frames_ctx
             = (if frames_sw_format frames0 = AV_PIX_FMT_NONE then AV_PIX_FMT_NV12
                else frames_sw_format frames0)
         \<and> frames_initial_pool_size frames_ctx
             = (if frames_initial_pool_size frames0 = 0 then 32
                else frames_initial_pool_size frames0)"
proof -
  from r obtain device_ctx where dc: "device_at s hw_device_ctx = Some device_ctx"
    by (auto simp: hw_create_frames_def split: option.splits)
  with r obtain child_ctx where cc: "frames_child_ctx s hw_device_ctx device_ctx = Some child_ctx"
    by (auto simp: hw_create_frames_def split: option.splits)
  with r dc obtain child where ch: "device_at s child_ctx = Some child"
    by (auto simp: hw_create_frames_def split: option.splits)
  obtain hf s2 where q: "frames_query lib codec_ctx child_ctx hw_format s = (hf, s2)"
    by (metis surj_pair)
  with r dc cc ch obtain fr where hf: "hf = Some fr"
    by (auto simp: hw_create_frames_def split: option.splits)
  with r dc cc ch q obtain frames0 where f0: "frames_at s2 fr = Some frames0"
    by (auto simp: hw_create_frames_def split: option.splits)
  define filled where
    "filled = fill_frames_ctx lib frames0 (child_ctx = hw_device_ctx) child width height hw_format"
  define s3 where "s3 = update_data fr (Frames filled) s2"
  have run: "hw_create_frames lib codec_ctx hw_device_ctx width height hw_format s =
      (if av_hwframe_ctx_init lib filled < 0 then (None, av_buffer_unref (Some fr) s3)
       else if child_ctx \<noteq> hw_device_ctx
       then (case call_hwframe_ctx_create_derived lib hw_format hw_device_ctx fr
                    (AV_HWFRAME_MAP_READ OR AV_HWFRAME_MAP_WRITE) s3 of
               (res, derived_frame_ctx, s4) \<Rightarrow>
                 if res < 0 then (None, av_buffer_unref (Some fr) s4)
                 else (case derived_frame_ctx of
                         None \<Rightarrow> (None, fault (av_buffer_unref (Some fr) s4))
                       | Some d \<Rightarrow>
                           (case frames_at (av_buffer_unref (Some fr) s4) d of
                              None \<Rightarrow> (Some d, fault (av_buffer_unref (Some fr) s4))
                            | Some derived \<Rightarrow>
                                (Some d,
                                 update_data d (Frames (derived\<lparr>frames_user_opaque := Some fr\<rparr>))
                                   (av_buffer_unref (Some fr) s4)))))
       else (Some fr, s3))"
    using dc cc ch q hf f0
    by (simp add: hw_create_frames_def Let_def filled_def s3_def split: prod.splits)
  from frames_query_result[OF q[unfolded hf]] f0 have frl: "fr = length (cells s)"
    and l2: "lookup s2 fr = Some \<lparr>refcount = 1, data = Frames frames0, internal_refs = [child_ctx]\<rparr>"
    and others: "\<And>r. r \<noteq> fr \<Longrightarrow> map_option data (lookup s2 r) = map_option data (lookup s r)"
    by (auto simp: frames_at_def)
  have s3put: "s3 = put fr (Some \<lparr>refcount = 1, data = Frames filled, internal_refs = [child_ctx]\<rparr>) s2"
    by (simp add: s3_def update_data_live[OF l2])
  have l3: "lookup s3 fr = Some \<lparr>refcount = 1, data = Frames filled, internal_refs = [child_ctx]\<rparr>"
    using lookup_live[OF l2] by (simp add: s3put lookup_put)
  have fields: "frames_width filled = width \<and> frames_height filled = height
         \<and> frames_sw_format filled
             = (if frames_sw_format frames0 = AV_PIX_FMT_NONE then AV_PIX_FMT_NV12
                else frames_sw_format frames0)
         \<and> frames_initial_pool_size filled
             = (if frames_initial_pool_size frames0 = 0 then 32
                else frames_initial_pool_size frames0)"
    unfolding filled_def by (rule fill_frames_fields)
  have built: "frames_at s' fr = Some filled
         \<and> (if child_ctx = hw_device_ctx then pool = fr
             else (\<exists>derived. frames_at s' pool = Some derived
                             \<and> frames_user_opaque derived = Some fr))"
  proof (cases "child_ctx = hw_device_ctx")
    case True
    with r run have "pool = fr" and "s' = s3"
      by (auto split: if_splits)
    with True l3 show ?thesis
      by (simp add: frames_at_def)
  next
    case False
    obtain res dref s4 where
      c: "call_hwframe_ctx_create_derived lib hw_format hw_device_ctx fr
            (AV_HWFRAME_MAP_READ OR AV_HWFRAME_MAP_WRITE) s3 = (res, dref, s4)"
      by (metis prod_cases3)
    let ?s5 = "av_buffer_unref (Some fr) s4"
    from r run False c obtain d where dref: "dref = Some d"
      by (auto split: if_splits option.splits)
    from lookup_live dc have "hw_device_ctx < length (cells s)"
      by (auto simp: device_at_def split: option.splits)
    with frl have ne: "hw_device_ctx \<noteq> fr"
      by simp
    have "lookup s3 hw_device_ctx = lookup s2 hw_device_ctx"
      using ne by (simp add: s3put lookup_put)
    with others[OF ne] dc have dev3: "device_at s3 hw_device_ctx = Some device_ctx"
      using device_at_data[of s3 hw_device_ctx s] by simp
    note st = derived_frames_store[OF l3 dev3 c[unfolded dref]]
    from st obtain derived where dv: "frames_at ?s5 d = Some derived"
      by blast
    from r run False c dref dv
    have "pool = d"
      and "s' = update_data d (Frames (derived\<lparr>frames_user_opaque := Some fr\<rparr>)) ?s5"
      by (auto split: if_splits)
    with st False show ?thesis
      by auto
  qed
  from dc cc q hf f0 built fields show ?thesis
    by blast
qed

lemma example_frames_run:
  "hw_create_frames example_lib (Some example_codec_ctx) 0 1920 1080 AV_PIX_FMT_VAAPI_VLD
     vaapi_store = (Some 1, vaapi_frames_store)"
  by (simp add: hw_create_frames_def frames_child_ctx_def frames_query_def
      call_get_hw_frames_parameters_def fill_frames_ctx_def new_buffer_def take_ref_def
      update_data_def put_def lookup_def device_at_def frames_at_def
      vaapi_store_def vaapi_frames_store_def example_lib_def example_device_def
      example_frames_def HW_DEFAULT_SW_FORMAT_def Let_def)

theorem frame_pool_defaults_witness:
  "hw_create_frames example_lib (Some example_codec_ctx) 0 1920 1080 AV_PIX_FMT_VAAPI_VLD
     vaapi_store = (Some 1, vaapi_frames_store)
   \<and> (\<exists>s2 frames0 frames_ctx.
         frames_query example_lib (Some example_codec_ctx) 0 AV_PIX_FMT_VAAPI_VLD vaapi_store
           = (Some 1, s2)
         \<and> frames_at s2 1 = Some frames0
         \<and> frames_sw_format frames0 = AV_PIX_FMT_NONE
         \<and> frames_initial_pool_size frames0 = 20
         \<and> frames_at vaapi_frames_store 1 = Some frames_ctx
         \<and> frames_width frames_ctx = 1920
         \<and> frames_height frames_ctx = 1080
         \<and> frames_sw_format frames_ctx = AV_PIX_FMT_NV12
         \<and> frames_initial_pool_size frames_ctx = 20)"
proof -
  from frame_pool_defaults[OF example_frames_run] obtain device_ctx child_ctx fr s2 frames0 frames_ctx
    where dc: "device_at vaapi_store 0 = Some device_ctx"
      and cc: "frames_child_ctx vaapi_store 0 device_ctx = Some child_ctx"
      and q: "frames_query example_lib (Some example_codec_ctx) child_ctx AV_PIX_FMT_VAAPI_VLD
                vaapi_store = (Some fr, s2)"
      and f0: "frames_at s2 fr = Some frames0"
      and fc: "frames_at vaapi_frames_store fr = Some frames_ctx"
      and p: "if child_ctx = 0 then 1 = fr
              else (\<exists>derived. frames_at vaapi_frames_store 1 = Some derived
                              \<and> frames_user_opaque derived = Some fr)"
      and w: "frames_width frames_ctx = 1920" and h: "frames_height frames_ctx = 1080"
      and sw: "frames_sw_format frames_ctx
                 = (if frames_sw_format frames0 = AV_PIX_FMT_NONE then AV_PIX_FMT_NV12
                    else frames_sw_format frames0)"
      and n: "frames_initial_pool_size frames_ctx
                 = (if frames_initial_pool_size frames0 = 0 then 32
                    else frames_initial_pool_size frames0)"
    by blast
  from dc cc have c0: "child_ctx = 0"
    by (auto simp: frames_child_ctx_def device_at_def lookup_def vaapi_store_def
        example_device_def)
  with p have fr1: "fr = 1"
    by simp
  from q f0 have "frames_sw_format frames0 = AV_PIX_FMT_NONE"
    and "frames_initial_pool_size frames0 = 20"
    unfolding c0 fr1
    by (auto simp: frames_query_def call_get_hw_frames_parameters_def new_buffer_def
        take_ref_def put_def lookup_def device_at_def frames_at_def vaapi_store_def
        example_lib_def example_device_def example_frames_def Let_def)
  with example_frames_run q f0 fc w h sw n show ?thesis
    unfolding c0 fr1 by auto
qed

subsection \<open>Format-selection callback\<close>

















text \<open>
  Four runs of the example library on a VAAPI device: with no device context attached,
  with a codec that has a QSV configuration only, with a frame width that
  \<open>av_hwframe_ctx_init\<close> rejects, and one that selects the hardware format.
\<close>

lemma example_no_device:
  "hw_get_format_callback example_lib (example_codec_ctx\<lparr>cc_hw_device_ctx := None\<rparr>)
     [AV_PIX_FMT_OTHER 0, AV_PIX_FMT_VAAPI_VLD, AV_PIX_FMT_NONE] vaapi_store
     = (AV_PIX_FMT_OTHER 0, example_codec_ctx\<lparr>cc_hw_device_ctx := None\<rparr>, vaapi_store)"
  by (simp add: hw_get_format_callback_def first_format_def)

lemma example_no_match:
  "hw_get_format_callback example_lib (example_codec_ctx\<lparr>cc_codec := h264_qsv\<rparr>)
     [AV_PIX_FMT_OTHER 0, AV_PIX_FMT_VAAPI_VLD, AV_PIX_FMT_NONE] vaapi_store
     = (AV_PIX_FMT_OTHER 0, example_codec_ctx\<lparr>cc_codec := h264_qsv\<rparr>, vaapi_store)"
  by (simp add: hw_get_format_callback_def first_format_def lookup_def device_at_def
      vaapi_store_def example_device_def example_codec_ctx_def h264_qsv_def)




subsection \<open>Further properties\<close>

text \<open>
  The device string (lines 259-267): a VAAPI device of index \<open>i\<close> is the render node
  \<open>128 + i\<close>, any other device is the index in decimal, and an index outside
  \<open>0 \<le> i < 100000\<close> gives no string, for the default device.
\<close>

theorem device_selector_mapping:
  "device_selector AV_HWDEVICE_TYPE_VAAPI 0 = Some ''/dev/dri/renderD128''
   \<and> device_selector AV_HWDEVICE_TYPE_VAAPI 5 = Some ''/dev/dri/renderD133''
   \<and> device_selector AV_HWDEVICE_TYPE_D3D11VA 5 = Some ''5''
   \<and> device_selector child_type (- 1) = None
   \<and> device_selector child_type 100000 = None"
proof -
  have "device_selector AV_HWDEVICE_TYPE_VAAPI 0 = Some ''/dev/dri/renderD128''"
    and "device_selector AV_HWDEVICE_TYPE_VAAPI 5 = Some ''/dev/dri/renderD133''"
    and "device_selector AV_HWDEVICE_TYPE_D3D11VA 5 = Some ''5''"
    by code_simp+
  then show ?thesis
    by (simp add: device_selector_def)
qed

lemma find_char_split:
  "(case find_char t c of Some i \<Rightarrow> (take i t, drop (i + 1) t) | None \<Rightarrow> (t, []))
     = (takeWhile (\<lambda>x. x \<noteq> c) t, drop 1 (dropWhile (\<lambda>x. x \<noteq> c) t))"
  by (induction t) (auto split: option.splits)

text \<open>
  \<open>parse_next\<close> on a fresh stream reads the entry up to the first comma and splits it at
  its first dot only: the type name is what stands before that dot, the device filter is
  all that follows it, and an entry with no dot has an empty filter.
\<close>

theorem parse_next_first_dot:
  "it_hw_type_device_string (parse_next lib (it\<lparr>it_s_stream := fresh_stream tok\<rparr>))
      = takeWhile (\<lambda>x. x \<noteq> CHR '','') tok
   \<and> it_hw_type_string (parse_next lib (it\<lparr>it_s_stream := fresh_stream tok\<rparr>))
      = takeWhile (\<lambda>x. x \<noteq> CHR ''.'') (takeWhile (\<lambda>x. x \<noteq> CHR '','') tok)
   \<and> it_device_subname (parse_next lib (it\<lparr>it_s_stream := fresh_stream tok\<rparr>))
      = drop 1 (dropWhile (\<lambda>x. x \<noteq> CHR ''.'') (takeWhile (\<lambda>x. x \<noteq> CHR '','') tok))"
proof -
  let ?t = "takeWhile (\<lambda>x. x \<noteq> CHR '','') tok"
  have "fst (getline (fresh_stream tok) (it_hw_type_device_string it) CHR '','') = ?t"
    by (simp add: getline_def fresh_stream_def stream_good_def Let_def split: list.splits)
  then obtain st where e: "getline (fresh_stream tok) (it_hw_type_device_string it) CHR '','' = (?t, st)"
    by (metis prod.collapse)
  from find_char_split[of ?t "CHR ''.''"] e show ?thesis
    by (auto simp: parse_next_def Let_def split: option.splits)
qed

text \<open>
  With the preference \<open>None\<close> the candidate list and the disabled list are empty, whatever
  the dictionary holds; the iterator is good once, and its one candidate is the empty
  entry.
\<close>

theorem preference_none_software:
  "accel_list plat VIDEO_ACCELERATION_NONE isEncoder dict = []
   \<and> good (new_HWAccelIterator plat VIDEO_ACCELERATION_NONE isEncoder dict)
   \<and> it_disabled_codecs (new_HWAccelIterator plat VIDEO_ACCELERATION_NONE isEncoder dict) = []
   \<and> candidates lib (new_HWAccelIterator plat VIDEO_ACCELERATION_NONE isEncoder dict) = [[]]
   \<and> it_hw_type (parse_next lib (new_HWAccelIterator plat VIDEO_ACCELERATION_NONE isEncoder dict))
       = av_hwdevice_find_type_by_name lib []
   \<and> \<not> good (parse_next lib (new_HWAccelIterator plat VIDEO_ACCELERATION_NONE isEncoder dict))"
proof -
  have l: "accel_list plat VIDEO_ACCELERATION_NONE isEncoder dict = []"
    by (simp add: accel_list_def)
  have g: "getline (fresh_stream []) [] CHR '',''
             = ([], \<lparr>buf = [], eofbit = True, failbit = True\<rparr>)"
    by (simp add: getline_def fresh_stream_def stream_good_def)
  have c: "candidates lib (new_HWAccelIterator plat VIDEO_ACCELERATION_NONE isEncoder dict) = [[]]"
    by (simp add: candidates_new l open_stream_def read_tokens_fresh)
  have s: "it_s_stream (new_HWAccelIterator plat VIDEO_ACCELERATION_NONE isEncoder dict)
             = fresh_stream []"
    and d: "it_hw_type_device_string
              (new_HWAccelIterator plat VIDEO_ACCELERATION_NONE isEncoder dict) = []"
    and dis: "it_disabled_codecs (new_HWAccelIterator plat VIDEO_ACCELERATION_NONE isEncoder dict)
                = []"
    by (simp_all add: new_HWAccelIterator_def open_stream_def l)
  have g1: "good (new_HWAccelIterator plat VIDEO_ACCELERATION_NONE isEncoder dict)"
    by (simp add: good_def s stream_good_fresh)
  have t: "it_hw_type (parse_next lib (new_HWAccelIterator plat VIDEO_ACCELERATION_NONE isEncoder dict))
       = av_hwdevice_find_type_by_name lib []"
    by (simp add: parse_next_def s d g)
  have g2: "\<not> good (parse_next lib (new_HWAccelIterator plat VIDEO_ACCELERATION_NONE isEncoder dict))"
    by (simp add: good_def parse_next_stream s d g stream_good_def)
  from l g1 dis c t g2 show ?thesis
    by blast
qed

lemma hw_disables_check:
  assumes "av_hwdevice_get_type_name lib hw_type = Some type_name"
    and "''hw'' \<in> set (split_on CHR '','' disabled)"
  shows "hw_check_codec lib c hw_type (Some disabled) = Inr False"
  using assms by (auto simp add: hw_check_codec_def disabled_scan_tokens read_tokens_fresh Let_def)

lemma hw_disables_native:
  assumes "hw_check_codec lib c hw_type disabled_codecs = Inr False"
  shows "\<exists>fmt. native_fmt_loop lib c hw_type disabled_codecs native pix_fmts out = Inr (False, fmt)"
  using assms by (induction pix_fmts arbitrary: out) auto

lemma hw_disables_native_guarded:
  assumes "hw_check_codec lib c hw_type disabled_codecs = Inr False"
  shows "\<exists>fmt1. (case codec_pix_fmts c of
                   Some pix_fmts \<Rightarrow>
                     if codec_is_encoder c \<and> native \<noteq> AV_PIX_FMT_NONE
                     then native_fmt_loop lib c hw_type disabled_codecs native pix_fmts out
                     else Inr (False, out)
                 | None \<Rightarrow> Inr (False, out)) = Inr (False, fmt1)"
  by (auto split: option.splits intro: hw_disables_native[OF assms])

lemma hw_disables_configs:
  assumes "hw_check_codec lib c hw_type disabled_codecs = Inr False"
  shows "\<exists>fmt. hw_config_loop lib c hw_type disabled_codecs configs out = Inr (False, fmt)"
  using assms by (induction configs arbitrary: out) auto

text \<open>
  With the entry \<open>hw\<close> in the disabled list, \<open>hw_find_codec\<close> finds no codec for any
  backend the library has a name for.
\<close>

theorem hw_token_disables_all:
  assumes name: "av_hwdevice_get_type_name lib hw_type = Some type_name"
    and hw: "''hw'' \<in> set (split_on CHR '','' disabled)"
    and t: "hw_type \<noteq> AV_HWDEVICE_TYPE_NONE"
  shows "\<exists>fmt. hw_find_codec lib cid hw_type check_category (Some disabled) hw_pix_fmt
                 = Inr (None, fmt)"
proof -
  have "\<exists>fmt. find_codec_loop lib cs cid hw_type check_category (Some disabled) out
                 = Inr (None, fmt)" for cs out
  proof (induction cs arbitrary: out)
    case Nil
    show ?case by simp
  next
    case (Cons c cs)
    note chk = hw_disables_check[OF name hw, of c]
    let ?native = "if LIBAVUTIL_BUILD lib < AV_VERSION_INT 56 51 100
                      \<and> hw_type = AV_HWDEVICE_TYPE_VAAPI
                   then AV_PIX_FMT_VAAPI_VLD else AV_PIX_FMT_NONE"
    let ?native2 = "if hw_type = AV_HWDEVICE_TYPE_CUDA then AV_PIX_FMT_CUDA else ?native"
    from hw_disables_native_guarded[OF chk, where native = ?native2 and out = out]
    obtain fmt1 where n: "(case codec_pix_fmts c of
                   Some pix_fmts \<Rightarrow>
                     if codec_is_encoder c \<and> ?native2 \<noteq> AV_PIX_FMT_NONE
                     then native_fmt_loop lib c hw_type (Some disabled) ?native2 pix_fmts out
                     else Inr (False, out)
                 | None \<Rightarrow> Inr (False, out)) = Inr (False, fmt1)"
      by blast
    obtain fmt2 where c2: "hw_config_loop lib c hw_type (Some disabled) (codec_hw_configs c) fmt1
                             = Inr (False, fmt2)"
      using hw_disables_configs[OF chk] by blast
    from Cons.IH[of out] Cons.IH[of fmt2] t n c2 show ?case
      by (simp add: Let_def)
  qed
  then show ?thesis
    by (simp add: hw_find_codec_def)
qed

theorem hw_token_disables_all_witness:
  "av_hwdevice_get_type_name example_lib AV_HWDEVICE_TYPE_VAAPI = Some ''vaapi''
   \<and> ''hw'' \<in> set (split_on CHR '','' ''av1.vaapi,hw'')
   \<and> AV_HWDEVICE_TYPE_VAAPI \<noteq> AV_HWDEVICE_TYPE_NONE
   \<and> (\<exists>fmt. hw_find_codec example_lib 27 AV_HWDEVICE_TYPE_VAAPI (\<lambda>c. 1) (Some ''av1.vaapi,hw'')
               AV_PIX_FMT_NONE = Inr (None, fmt))"
proof -
  have a: "av_hwdevice_get_type_name example_lib AV_HWDEVICE_TYPE_VAAPI = Some ''vaapi''"
    by (simp add: example_lib_def hw_type_names_def)
  have b: "''hw'' \<in> set (split_on CHR '','' ''av1.vaapi,hw'')"
    by simp
  have c: "AV_HWDEVICE_TYPE_VAAPI \<noteq> AV_HWDEVICE_TYPE_NONE"
    by simp
  from hw_token_disables_all[OF a b c, where cid = 27 and check_category = "\<lambda>c. 1"
      and hw_pix_fmt = AV_PIX_FMT_NONE] a b c
  show ?thesis
    by blast
qed

text \<open>
  A run of the two-stage backend on Windows with the example library: the D3D11VA child is
  opened, the QSV context is derived from it, the local reference to the child is
  released, and releasing the QSV context frees both buffers.
\<close>

lemma example_two_stage:
  "hw_create_device example_lib Windows AV_HWDEVICE_TYPE_QSV 0 [] False empty_store
     = (Some 1,
        \<lparr>cells = [Some \<lparr>refcount = 2, data = Device (example_device AV_HWDEVICE_TYPE_D3D11VA),
                         internal_refs = []\<rparr>,
                  Some \<lparr>refcount = 1,
                        data = Device ((example_device AV_HWDEVICE_TYPE_QSV)
                                 \<lparr>dev_user_opaque := Some 0, dev_free := Some FreeChildContext\<rparr>),
                        internal_refs = [0]\<rparr>],
         faults = 0\<rparr>)
   \<and> av_buffer_unref (Some 1)
        (snd (hw_create_device example_lib Windows AV_HWDEVICE_TYPE_QSV 0 [] False empty_store))
       = \<lparr>cells = [None, None], faults = 0\<rparr>"
  by (simp add: hw_create_device_def call_hwdevice_ctx_create_def device_selector_def
      hw_check_device_def hw_create_derived_context_def call_hwdevice_ctx_create_derived_def
      new_buffer_def av_buffer_ref_def take_ref_def av_buffer_unref_def update_data_def put_def lookup_def
      device_at_def owned_refs_def empty_store_def example_lib_def example_device_def Let_def)

end
